theory Spec2Isabelle
  imports Complex_Main "HOL-Library.Sublist"
begin

section \<open>Strings and numbers of the host language\<close>

text \<open>
  Strings are lists of characters. The model covers ASCII text: \<open>toLowerCase\<close> folds
  \<open>A\<close>..\<open>Z\<close>, \<open>trim\<close> strips the ASCII white space characters, and \<open>\d\<close> of a
  regular expression is \<open>0\<close>..\<open>9\<close>.
\<close>

definition isDigit :: "char \<Rightarrow> bool" where
  "isDigit c = (c \<in> set ''0123456789'')"

definition digitVal :: "char \<Rightarrow> nat" where
  "digitVal c = length (takeWhile (\<lambda>d. d \<noteq> c) ''0123456789'')"

definition isSpace :: "char \<Rightarrow> bool" where
  "isSpace c = (c \<in> set [CHR 0x09, CHR 0x0A, CHR 0x0B, CHR 0x0C, CHR 0x0D, CHR '' ''])"

definition lowerChar :: "char \<Rightarrow> char" where
  "lowerChar c =
     (case map_of (zip ''ABCDEFGHIJKLMNOPQRSTUVWXYZ'' ''abcdefghijklmnopqrstuvwxyz'') c of
        Some l \<Rightarrow> l
      | None \<Rightarrow> c)"

definition toLowerCase :: "string \<Rightarrow> string" where
  "toLowerCase s = map lowerChar s"

definition trim :: "string \<Rightarrow> string" where
  "trim s = rev (dropWhile isSpace (rev (dropWhile isSpace s)))"

text \<open>\<open>s.includes(sub)\<close>: \<open>sub\<close> occurs in \<open>s\<close> as a contiguous run.\<close>

fun includesStr :: "string \<Rightarrow> string \<Rightarrow> bool" where
  "includesStr [] sub = (sub = [])"
| "includesStr (c # cs) sub = (prefix sub (c # cs) \<or> includesStr cs sub)"

text \<open>\<open>s.replace(pat, rep)\<close> with a string pattern: the first occurrence only.\<close>

fun replaceFirst :: "string \<Rightarrow> string \<Rightarrow> string \<Rightarrow> string" where
  "replaceFirst pat rep [] = (if pat = [] then rep else [])"
| "replaceFirst pat rep (c # cs) =
     (if prefix pat (c # cs) then rep @ drop (length pat) (c # cs)
      else c # replaceFirst pat rep cs)"

text \<open>\<open>xs.indexOf(x)\<close>: the first index of \<open>x\<close>, or \<open>-1\<close>.\<close>

fun indexOf :: "'a list \<Rightarrow> 'a \<Rightarrow> int" where
  "indexOf [] x = -1"
| "indexOf (y # ys) x =
     (if y = x then 0 else (let i = indexOf ys x in if i < 0 then -1 else i + 1))"

text \<open>The value of a run of decimal digits, and the decimal rendering of a count.\<close>

definition digitsValue :: "string \<Rightarrow> nat" where
  "digitsValue ds = foldl (\<lambda>acc c. 10 * acc + digitVal c) 0 ds"

definition digitChar :: "nat \<Rightarrow> char" where
  "digitChar n = ''0123456789'' ! n"

fun showNat :: "nat \<Rightarrow> string" where
  "showNat n = (if n < 10 then [digitChar n] else showNat (n div 10) @ [digitChar (n mod 10)])"

declare showNat.simps [simp del]

definition showInt :: "int \<Rightarrow> string" where
  "showInt i = (if i < 0 then CHR ''-'' # showNat (nat (- i)) else showNat (nat i))"

text \<open>
  \<open>parseInt(s, 10)\<close>: leading white space is skipped, one sign is accepted, and the longest
  run of digits that follows is the value; \<open>None\<close> is \<open>NaN\<close> (no digit there). What follows
  the digits is ignored. The value is exact: the rounding of the host's numbers, which
  starts beyond fifteen digits, is not modelled.
\<close>

definition parseInt :: "string \<Rightarrow> int option" where
  "parseInt s =
     (let s1 = dropWhile isSpace s;
          neg = (s1 \<noteq> [] \<and> hd s1 = CHR ''-'');
          s2 = (if s1 \<noteq> [] \<and> (hd s1 = CHR ''-'' \<or> hd s1 = CHR ''+'') then tl s1 else s1);
          z = takeWhile isDigit s2
      in if z = [] then None
         else Some (if neg then - int (digitsValue z) else int (digitsValue z)))"

text \<open>
  A value that may be absent: \<open>undefined\<close>, \<open>null\<close> or present. A number is a real, or
  one of the three values that compare false with every bound.
\<close>

datatype 'a nullish = Undefined | Null | Val 'a

datatype number = Fin real | NaN | PosInfinity | NegInfinity

text \<open>
  Library functions of the host that the repository calls and does not define: the
  rendering of a number in a template string, the \<open>Date\<close> constructor on a string, and
  \<open>d.setUTCMonth(d.getUTCMonth() + n)\<close> on a valid date. The last two give a time value,
  or \<open>None\<close> for an Invalid Date. They are parameters of the model.
\<close>

record builtins =
  numberToString :: "number \<Rightarrow> string"
  dateParse :: "string \<Rightarrow> int option"
  addUTCMonths :: "int \<Rightarrow> int \<Rightarrow> int option"

section \<open>Priority keyword mapper (priority-mapper.ts)\<close>

record PriorityMapping =
  keywordsOf :: "string list"
  val :: nat
  label :: string

definition PRIORITY_MAPPINGS :: "PriorityMapping list" where
  "PRIORITY_MAPPINGS =
     [\<lparr>keywordsOf = [''low'', ''minor'', ''optional''], val = 1, label = ''Low''\<rparr>,
      \<lparr>keywordsOf = [''normal'', ''medium'', ''standard'', ''regular''], val = 2, label = ''Normal''\<rparr>,
      \<lparr>keywordsOf = [''high'', ''important'', ''elevated''], val = 3, label = ''High''\<rparr>,
      \<lparr>keywordsOf = [''urgent'', ''pressing'', ''time-sensitive'', ''time sensitive''], val = 4,
        label = ''Urgent''\<rparr>,
      \<lparr>keywordsOf = [''critical'', ''severe'', ''blocking'', ''emergency''], val = 5,
        label = ''Critical''\<rparr>]"

datatype priority_input = Str string | Num number

text \<open>The loop over \<open>PRIORITY_MAPPINGS\<close>: the first mapping one of whose keywords occurs.\<close>

definition matchKeywords :: "string \<Rightarrow> real option" where
  "matchKeywords normalized =
     (case find (\<lambda>m. list_ex (\<lambda>keyword. includesStr normalized keyword) (keywordsOf m))
             PRIORITY_MAPPINGS of
        Some m \<Rightarrow> Some (real (val m))
      | None \<Rightarrow> None)"

definition parsePriority :: "priority_input nullish \<Rightarrow> real option" where
  "parsePriority input =
     (case input of
        Null \<Rightarrow> None
      | Undefined \<Rightarrow> None
      | Val (Num n) \<Rightarrow>
          (case n of
             Fin x \<Rightarrow> (if x \<ge> 1 \<and> x \<le> 5 then Some x else None)
           | _ \<Rightarrow> None)
      | Val (Str s) \<Rightarrow>
          (let normalized = trim (toLowerCase s);
               numericValue = parseInt normalized
           in case numericValue of
                Some k \<Rightarrow>
                  (if k \<ge> 1 \<and> k \<le> 5 then Some (of_int k) else matchKeywords normalized)
              | None \<Rightarrow> matchKeywords normalized))"

definition formatPriority :: "builtins \<Rightarrow> real option \<Rightarrow> string" where
  "formatPriority js v =
     (case v of
        None \<Rightarrow> ''''
      | Some x \<Rightarrow>
          (case find (\<lambda>m. real (val m) = x) PRIORITY_MAPPINGS of
             Some m \<Rightarrow> (if label m \<noteq> [] then label m
                        else ''Priority '' @ numberToString js (Fin x))
           | None \<Rightarrow> ''Priority '' @ numberToString js (Fin x)))"

section \<open>Thrown values\<close>

text \<open>
  What a \<open>throw\<close> carries: an \<open>Error\<close> with its message, or another value with its
  rendering \<open>String(value)\<close>. A function that can throw returns \<open>thrown + 'a\<close>, where
  \<open>Inl\<close> is the throw. The message is read from an \<open>Error\<close> only: \<open>withRetry\<close> wraps
  what it catches (\<open>asError\<close>), and the tools test \<open>instanceof Error\<close> before they format.
\<close>

datatype thrown = Error (message: string) | Other string

definition asError :: "thrown \<Rightarrow> thrown" where
  "asError e = (case e of Error m \<Rightarrow> Error m | Other s \<Rightarrow> Error s)"

section \<open>Date parser (date-parser.ts)\<close>

text \<open>
  A \<open>Date\<close> is its time value: the milliseconds since the epoch in UTC, or \<open>NaN\<close> for an
  Invalid Date, which is \<open>None\<close> here. A time value is at most \<open>maxTime\<close> in absolute value:
  every function that sets a field of a \<open>Date\<close> clips its result, and what falls outside
  becomes the Invalid Date. The source returns \<open>date.toISOString()\<close>, which throws a
  \<open>RangeError\<close> on an Invalid Date; the model returns the instant that the string renders.
\<close>

type_synonym instant = int

type_synonym date = "instant option"

definition msPerHour :: int where
  "msPerHour = 3600000"

definition msPerDay :: int where
  "msPerDay = 86400000"

definition maxTime :: int where
  "maxTime = 8640000000000000"

definition timeClip :: "int \<Rightarrow> date" where
  "timeClip t = (if \<bar>t\<bar> \<le> maxTime then Some t else None)"

text \<open>\<open>d.setUTCHours(h, 0, 0, 0)\<close>: the same UTC day, at \<open>h\<close> o'clock.\<close>

definition setUTCHours :: "int \<Rightarrow> date \<Rightarrow> date" where
  "setUTCHours h d =
     (case d of
        None \<Rightarrow> None
      | Some t \<Rightarrow> timeClip ((t div msPerDay) * msPerDay + h * msPerHour))"

text \<open>\<open>d.setUTCDate(d.getUTCDate() + n)\<close>: \<open>n\<close> UTC days later, the time of day kept.\<close>

definition addUTCDate :: "int \<Rightarrow> date \<Rightarrow> date" where
  "addUTCDate n d = (case d of None \<Rightarrow> None | Some t \<Rightarrow> timeClip (t + n * msPerDay))"

text \<open>
  \<open>d.setUTCMonth(d.getUTCMonth() + n)\<close>, by the host's calendar, and \<open>new Date(s)\<close> on a
  string. Both clip the time value that they store.
\<close>

definition addMonths :: "builtins \<Rightarrow> int \<Rightarrow> date \<Rightarrow> date" where
  "addMonths js n d =
     (case d of
        None \<Rightarrow> None
      | Some t \<Rightarrow> (case addUTCMonths js t n of None \<Rightarrow> None | Some u \<Rightarrow> timeClip u))"

definition newDate :: "builtins \<Rightarrow> string \<Rightarrow> date" where
  "newDate js s = (case dateParse js s of None \<Rightarrow> None | Some t \<Rightarrow> timeClip t)"

text \<open>
  The day of the week of an instant: 0 is Sunday; the epoch was a Thursday.
  \<open>d.getUTCDay()\<close> is \<open>NaN\<close> on an Invalid Date.
\<close>

definition weekDay :: "instant \<Rightarrow> int" where
  "weekDay t = (t div msPerDay + 4) mod 7"

definition getUTCDay :: "date \<Rightarrow> int option" where
  "getUTCDay d = (case d of None \<Rightarrow> None | Some t \<Rightarrow> Some (weekDay t))"

text \<open>\<open>a < b\<close> on two dates: false when one of them is invalid.\<close>

definition dateLess :: "date \<Rightarrow> date \<Rightarrow> bool" where
  "dateLess a b = (case a of None \<Rightarrow> False | Some x \<Rightarrow> (case b of None \<Rightarrow> False | Some y \<Rightarrow> x < y))"

definition toISOString :: "date \<Rightarrow> thrown + instant" where
  "toISOString d = (case d of None \<Rightarrow> Inl (Error ''Invalid time value'') | Some t \<Rightarrow> Inr t)"

text \<open>
  \<open>/^\d{4}-\d{2}-\d{2}(T\d{2}:\d{2}:\d{2}(\.\d{3})?Z?)?$/\<close>, in three parts: the date, the
  optional time, and what may follow the seconds.
\<close>

definition isoDatePart :: "string \<Rightarrow> bool" where
  "isoDatePart d =
     (length d = 10 \<and> list_all isDigit (take 4 d) \<and> d ! 4 = CHR ''-''
      \<and> list_all isDigit (take 2 (drop 5 d)) \<and> d ! 7 = CHR ''-''
      \<and> list_all isDigit (drop 8 d))"

definition isoFractionPart :: "string \<Rightarrow> bool" where
  "isoFractionPart f =
     (f = [] \<or> f = ''Z''
      \<or> (length f \<ge> 4 \<and> f ! 0 = CHR ''.'' \<and> list_all isDigit (take 3 (drop 1 f))
          \<and> (drop 4 f = [] \<or> drop 4 f = ''Z'')))"

definition isoTimePart :: "string \<Rightarrow> bool" where
  "isoTimePart r =
     (length r \<ge> 9 \<and> r ! 0 = CHR ''T'' \<and> list_all isDigit (take 2 (drop 1 r))
      \<and> r ! 3 = CHR '':'' \<and> list_all isDigit (take 2 (drop 4 r))
      \<and> r ! 6 = CHR '':'' \<and> list_all isDigit (take 2 (drop 7 r))
      \<and> isoFractionPart (drop 9 r))"

definition isISO8601 :: "string \<Rightarrow> bool" where
  "isISO8601 str =
     (isoDatePart (take 10 str) \<and> (drop 10 str = [] \<or> isoTimePart (drop 10 str)))"

text \<open>
  \<open>/^in (\d+) (day|days|week|weeks|month|months)$/\<close>: the two groups of a match. The digits
  are followed by a space, so the group is the whole run of digits.
\<close>

definition matchRelative :: "string \<Rightarrow> (string \<times> string) option" where
  "matchRelative s =
     (if prefix ''in '' s then
        (let r = drop 3 s; ds = takeWhile isDigit r; u = dropWhile isDigit r
         in if ds \<noteq> [] \<and> u \<noteq> [] \<and> hd u = CHR '' ''
               \<and> tl u \<in> set [''day'', ''days'', ''week'', ''weeks'', ''month'', ''months'']
            then Some (ds, tl u) else None)
      else None)"

definition parseRelativeDate :: "builtins \<Rightarrow> string \<Rightarrow> date \<Rightarrow> thrown + date" where
  "parseRelativeDate js input referenceDate =
     (case matchRelative input of
        None \<Rightarrow> Inl (Error (''Invalid relative date format: '' @ input))
      | Some (g1, unit) \<Rightarrow>
          (let amount = int (digitsValue g1);
               targetDate = setUTCHours 12 referenceDate
           in Inr (if unit = ''day'' \<or> unit = ''days'' then addUTCDate amount targetDate
                   else if unit = ''week'' \<or> unit = ''weeks'' then addUTCDate (amount * 7) targetDate
                   else if unit = ''month'' \<or> unit = ''months'' then addMonths js amount targetDate
                   else targetDate)))"

definition weekdayNames :: "string list" where
  "weekdayNames =
     [''monday'', ''tuesday'', ''wednesday'', ''thursday'', ''friday'', ''saturday'', ''sunday'']"

definition isWeekdayName :: "string \<Rightarrow> bool" where
  "isWeekdayName str = (toLowerCase str \<in> set weekdayNames)"

text \<open>\<open>/^next (monday|...|sunday)$/\<close> and \<open>/^this (monday|...|sunday)$/\<close>.\<close>

definition matchNextWeekday :: "string \<Rightarrow> bool" where
  "matchNextWeekday s = (prefix ''next '' s \<and> drop 5 s \<in> set weekdayNames)"

definition matchThisWeekday :: "string \<Rightarrow> bool" where
  "matchThisWeekday s = (prefix ''this '' s \<and> drop 5 s \<in> set weekdayNames)"

text \<open>
  On an Invalid Date the day index is \<open>NaN\<close>, the number of days computed from it is
  \<open>NaN\<close>, and the date that is returned is invalid.
\<close>

definition getNextWeekday :: "string \<Rightarrow> date \<Rightarrow> bool \<Rightarrow> thrown + date" where
  "getNextWeekday weekday referenceDate forceNext =
     (let weekdays = [''sunday'', ''monday'', ''tuesday'', ''wednesday'', ''thursday'', ''friday'',
                      ''saturday''];
          targetDayIndex = indexOf weekdays (toLowerCase weekday)
      in if targetDayIndex = -1 then Inl (Error (''Invalid weekday: '' @ weekday))
         else
           (case getUTCDay referenceDate of
              None \<Rightarrow> Inr None
            | Some currentDayIndex \<Rightarrow>
                (let targetDate = setUTCHours 12 referenceDate;
                     daysUntilTarget = targetDayIndex - currentDayIndex;
                     daysUntilTarget' =
                       (if daysUntilTarget \<le> 0 \<or> forceNext then daysUntilTarget + 7
                        else daysUntilTarget)
                 in Inr (addUTCDate daysUntilTarget' targetDate))))"

definition pastDateError :: thrown where
  "pastDateError = Error ''Cannot schedule tasks in the past. Please choose a future date.''"

text \<open>
  The chain of branches that computes \<open>targetDate\<close>, or throws. \<open>new Date(referenceDate)\<close>
  is a copy with the same time value.
\<close>

definition targetDateOf :: "builtins \<Rightarrow> string \<Rightarrow> string \<Rightarrow> date \<Rightarrow> thrown + date" where
  "targetDateOf js input normalized referenceDate =
     (if normalized = ''today'' \<or> normalized = ''tonight'' then
        (if normalized = ''tonight'' then Inr (setUTCHours 20 referenceDate)
         else Inr (setUTCHours 12 referenceDate))
      else if normalized = ''tomorrow'' then
        Inr (setUTCHours 12 (addUTCDate 1 referenceDate))
      else if normalized = ''next week'' then
        Inr (setUTCHours 12 (addUTCDate 7 referenceDate))
      else if normalized = ''next month'' then
        Inr (setUTCHours 12 (addMonths js 1 referenceDate))
      else if matchRelative normalized \<noteq> None then
        parseRelativeDate js normalized referenceDate
      else if matchNextWeekday normalized then
        getNextWeekday (replaceFirst ''next '' '''' normalized) referenceDate True
      else if isWeekdayName normalized then
        getNextWeekday normalized referenceDate False
      else if matchThisWeekday normalized then
        getNextWeekday (replaceFirst ''this '' '''' normalized) referenceDate False
      else
        Inl (Error (''I couldn't understand the date \"'' @ input
          @ ''\". Try phrases like \"tomorrow\", \"next Monday\", \"in 3 days\", or a specific date.'')))"

definition parseNaturalDate :: "builtins \<Rightarrow> string \<Rightarrow> date \<Rightarrow> thrown + instant" where
  "parseNaturalDate js input referenceDate =
     (let normalized = trim (toLowerCase input)
      in if isISO8601 input then
           (let date = newDate js input
            in if date = None then Inl (Error ''Invalid date format'')
               else if dateLess date referenceDate then Inl pastDateError
               else toISOString date)
         else
           (case targetDateOf js input normalized referenceDate of
              Inl e \<Rightarrow> Inl e
            | Inr targetDate \<Rightarrow>
                (if dateLess targetDate referenceDate then Inl pastDateError
                 else toISOString targetDate)))"

section \<open>Retry utilities (retry-utils.ts)\<close>

text \<open>
  \<open>RetryOptions\<close> has optional fields; \<open>DEFAULT_RETRY_OPTIONS\<close> has them all. The number of
  retries is an integer, the durations and the multiplier are reals.
\<close>

record RetryOptions =
  maxRetries :: "int option"
  initialDelayMs :: "real option"
  maxDelayMs :: "real option"
  timeoutMs :: "real option"
  backoffMultiplier :: "real option"
  shouldRetry :: "(thrown \<Rightarrow> bool) option"

record RequiredRetryOptions =
  maxRetriesR :: int
  initialDelayMsR :: real
  maxDelayMsR :: real
  timeoutMsR :: real
  backoffMultiplierR :: real
  shouldRetryR :: "thrown \<Rightarrow> bool"

definition defaultShouldRetry :: "thrown \<Rightarrow> bool" where
  "defaultShouldRetry error =
     (let message = toLowerCase (message error)
      in includesStr message ''network'' \<or> includesStr message ''timeout''
         \<or> includesStr message ''fetch'' \<or> includesStr message ''econnrefused''
         \<or> includesStr message ''status 5'')"

definition DEFAULT_RETRY_OPTIONS :: RequiredRetryOptions where
  "DEFAULT_RETRY_OPTIONS =
     \<lparr>maxRetriesR = 2, initialDelayMsR = 500, maxDelayMsR = 5000, timeoutMsR = 10000,
      backoffMultiplierR = 2, shouldRetryR = defaultShouldRetry\<rparr>"

text \<open>\<open>{ ...DEFAULT_RETRY_OPTIONS, ...options }\<close>: a field that \<open>options\<close> has wins.\<close>

definition mergeOptions :: "RequiredRetryOptions \<Rightarrow> RetryOptions \<Rightarrow> RequiredRetryOptions" where
  "mergeOptions d options =
     \<lparr>maxRetriesR = (case maxRetries options of Some v \<Rightarrow> v | None \<Rightarrow> maxRetriesR d),
      initialDelayMsR = (case initialDelayMs options of Some v \<Rightarrow> v | None \<Rightarrow> initialDelayMsR d),
      maxDelayMsR = (case maxDelayMs options of Some v \<Rightarrow> v | None \<Rightarrow> maxDelayMsR d),
      timeoutMsR = (case timeoutMs options of Some v \<Rightarrow> v | None \<Rightarrow> timeoutMsR d),
      backoffMultiplierR =
        (case backoffMultiplier options of Some v \<Rightarrow> v | None \<Rightarrow> backoffMultiplierR d),
      shouldRetryR = (case shouldRetry options of Some v \<Rightarrow> v | None \<Rightarrow> shouldRetryR d)\<rparr>"

definition calculateDelay :: "nat \<Rightarrow> real \<Rightarrow> real \<Rightarrow> real \<Rightarrow> real" where
  "calculateDelay attempt initialDelay maxDelay multiplier =
     (let delay = initialDelay * multiplier ^ attempt in min delay maxDelay)"

text \<open>
  One call of \<open>fn()\<close> raced against the timer: the promise has resolved, has rejected, or
  is still pending when the timer fires.
\<close>

datatype 'a settled = Resolved 'a | Rejected thrown | Pending

definition withTimeout :: "builtins \<Rightarrow> 'a settled \<Rightarrow> real \<Rightarrow> thrown + 'a" where
  "withTimeout js promise ms =
     (case promise of
        Resolved v \<Rightarrow> Inr v
      | Rejected e \<Rightarrow> Inl e
      | Pending \<Rightarrow>
          Inl (Error (''Operation timed out after '' @ numberToString js (Fin ms) @ ''ms'')))"

text \<open>
  What a run of \<open>withRetry\<close> does: its outcome (the returned value, or what it throws), the
  delays it slept, in order, and the number of calls of \<open>fn\<close>.
\<close>

record 'a retry_run =
  outcome :: "thrown + 'a"
  slept :: "real list"
  calls :: nat

text \<open>
  The \<open>while\<close> loop, from the state \<open>attempt\<close> with the delays slept so far. \<open>fn k\<close> is
  what the call number \<open>k\<close> of \<open>fn\<close> does (counted from 0). When the loop is never
  entered, \<open>lastError\<close> is unassigned and \<open>undefined\<close> is thrown.
\<close>

function retryLoop ::
  "builtins \<Rightarrow> (nat \<Rightarrow> 'a settled) \<Rightarrow> RequiredRetryOptions \<Rightarrow> thrown option \<Rightarrow> nat \<Rightarrow> real list
     \<Rightarrow> 'a retry_run" where
  "retryLoop js fn opts lastError attempt delays =
     (if int attempt \<le> maxRetriesR opts then
        (case withTimeout js (fn attempt) (timeoutMsR opts) of
           Inr result \<Rightarrow> \<lparr>outcome = Inr result, slept = delays, calls = attempt + 1\<rparr>
         | Inl error \<Rightarrow>
             (let lastError' = asError error
              in if int attempt \<ge> maxRetriesR opts then
                   \<lparr>outcome = Inl lastError', slept = delays, calls = attempt + 1\<rparr>
                 else if \<not> shouldRetryR opts lastError' then
                   \<lparr>outcome = Inl lastError', slept = delays, calls = attempt + 1\<rparr>
                 else
                   retryLoop js fn opts (Some lastError') (attempt + 1)
                     (delays @ [calculateDelay attempt (initialDelayMsR opts) (maxDelayMsR opts)
                                  (backoffMultiplierR opts)])))
      else
        \<lparr>outcome = Inl (case lastError of Some e \<Rightarrow> e | None \<Rightarrow> Other ''undefined''),
         slept = delays, calls = attempt\<rparr>)"
  by pat_completeness auto
termination
  by (relation "measure (\<lambda>(js, fn, opts, lastError, attempt, delays).
        nat (maxRetriesR opts + 1 - int attempt))") auto

declare retryLoop.simps [simp del]

definition withRetry :: "builtins \<Rightarrow> (nat \<Rightarrow> 'a settled) \<Rightarrow> RetryOptions \<Rightarrow> 'a retry_run" where
  "withRetry js fn options =
     (let opts = mergeOptions DEFAULT_RETRY_OPTIONS options
      in retryLoop js fn opts None 0 [])"

definition formatErrorForTTS :: "thrown \<Rightarrow> string \<Rightarrow> string" where
  "formatErrorForTTS error operation =
     (let message = toLowerCase (message error)
      in if includesStr message ''network'' \<or> includesStr message ''fetch''
            \<or> includesStr message ''econnrefused'' then
           ''I couldn't '' @ operation
             @ '' due to a network error. Please check your connection and try again.''
         else if includesStr message ''timeout'' then
           ''The request to '' @ operation @ '' timed out. Please try again.''
         else if includesStr message ''status 5'' then
           ''The server encountered an error while trying to '' @ operation
             @ ''. Please try again in a moment.''
         else if includesStr message ''status 4'' then
           (if includesStr message ''404'' \<or> includesStr message ''not found'' then
              ''I couldn't find that task. Please try a different description.''
            else if includesStr message ''400'' \<or> includesStr message ''invalid'' then
              ''The request to '' @ operation
                @ '' was invalid. Please try rephrasing your command.''
            else ''There was a problem with the request to '' @ operation
                @ ''. Please try again.'')
         else ''I couldn't '' @ operation @ ''. Please try again.'')"

section \<open>Task function context (task-function-context.ts)\<close>

text \<open>The fields of a task carry the prefix \<open>task_\<close>: \<open>task_id\<close> is \<open>id\<close>, and so on.\<close>

record Task =
  task_id :: string
  task_title :: string
  task_completed :: bool
  task_scheduled_time :: "string option"
  task_priority_index :: "real option"
  task_tags :: "string list option"
  task_created_at :: string
  task_updated_at :: string

subsection \<open>The task API, as the tools see it\<close>

text \<open>
  One attempt of a request, as far as the closure that \<open>fetchWithErrorHandling\<close> retries can
  observe: nothing has settled when the timer fires, \<open>fetch\<close> rejects, or a response
  arrives with its status, with the failure of reading its text (if reading fails) and
  with what \<open>response.json()\<close> will give. The responses are well typed: a listing holds
  tasks, a mutation holds a task.
\<close>

datatype 'a fetch_attempt =
    NoSettle
  | FetchRejects thrown
  | Response nat "thrown option" "thrown + 'a"

record create_body =
  cb_title :: string
  cb_scheduled_time :: "instant option"
  cb_priority_index :: real
  cb_tags :: "string list option"

record update_body =
  ub_title :: "string option"
  ub_scheduled_time :: "instant option"
  ub_priority_index :: "real option"
  ub_completed :: "bool option"

datatype request =
    PostTask create_body
  | PatchTask string update_body
  | DeleteTask string

text \<open>
  The world of one tool call: the clock, and what the API does with a listing (by its
  query parameters) and with a mutation, at each attempt.
\<close>

record env =
  now :: instant
  listTasks :: "(string \<times> string) list \<Rightarrow> nat \<Rightarrow> Task list fetch_attempt"
  mutateTask :: "request \<Rightarrow> nat \<Rightarrow> Task fetch_attempt"

definition responseOk :: "nat \<Rightarrow> bool" where
  "responseOk status = (200 \<le> status \<and> status \<le> 299)"

text \<open>
  The closure that \<open>fetchWithErrorHandling\<close> passes to \<open>withRetry\<close>, at one attempt. The
  response it resolves with is kept as what its \<open>json()\<close> gives.
\<close>

definition fetchAttempt :: "'a fetch_attempt \<Rightarrow> (thrown + 'a) settled" where
  "fetchAttempt a =
     (case a of
        NoSettle \<Rightarrow> Pending
      | FetchRejects e \<Rightarrow> Rejected e
      | Response status textFailure json \<Rightarrow>
          (if \<not> responseOk status then
             (case textFailure of
                Some e \<Rightarrow> Rejected e
              | None \<Rightarrow> Rejected (Error (''API request failed with status '' @ showNat status)))
           else Resolved json))"

definition fetchWithErrorHandling ::
  "builtins \<Rightarrow> (nat \<Rightarrow> 'a fetch_attempt) \<Rightarrow> thrown + (thrown + 'a)" where
  "fetchWithErrorHandling js net =
     outcome (withRetry js (\<lambda>k. fetchAttempt (net k))
       \<lparr>maxRetries = Some 2, initialDelayMs = Some 500, maxDelayMs = None,
        timeoutMs = Some 8000, backoffMultiplier = None, shouldRetry = None\<rparr>)"

text \<open>\<open>await fetchWithErrorHandling(...)\<close> followed by \<open>await response.json()\<close>.\<close>

definition awaitJson :: "thrown + (thrown + 'a) \<Rightarrow> thrown + 'a" where
  "awaitJson r = (case r of Inl e \<Rightarrow> Inl e | Inr json \<Rightarrow> json)"

definition getAllTasks :: "builtins \<Rightarrow> env \<Rightarrow> thrown + Task list" where
  "getAllTasks js env = awaitJson (fetchWithErrorHandling js (listTasks env []))"

subsection \<open>resolveTaskIdentifier\<close>

text \<open>\<open>/^\d+$/\<close>.\<close>

definition isPlainNumber :: "string \<Rightarrow> bool" where
  "isPlainNumber s = (s \<noteq> [] \<and> list_all isDigit s)"

text \<open>
  \<open>/(\d+)(st|nd|rd|th)/i\<close>: the first group of the leftmost match. From a start position
  the digits are taken greedily; giving one back leaves a digit where the suffix has a
  letter, so only the whole run can be followed by the suffix.
\<close>

definition ordinalSuffix :: "string \<Rightarrow> bool" where
  "ordinalSuffix s = (toLowerCase (take 2 s) \<in> set [''st'', ''nd'', ''rd'', ''th''])"

fun ordinalMatch :: "string \<Rightarrow> string option" where
  "ordinalMatch [] = None"
| "ordinalMatch (c # cs) =
     (let ds = takeWhile isDigit (c # cs) in
      if ds \<noteq> [] \<and> ordinalSuffix (dropWhile isDigit (c # cs)) then Some ds
      else ordinalMatch cs)"

text \<open>\<open>xs.join(sep)\<close>.\<close>

fun joinWith :: "string \<Rightarrow> string list \<Rightarrow> string" where
  "joinWith sep [] = []"
| "joinWith sep [x] = x"
| "joinWith sep (x # y # ys) = x @ sep @ joinWith sep (y # ys)"

text \<open>
  The body that the plain-number branch and the ordinal branch share, after
  \<open>parseInt(...) - 1\<close>: fetch, check the range, take the task. \<open>parseInt\<close> gives a number
  there, since the pattern has matched digits; a well-typed list has a task at every
  index in range.
\<close>

definition taskAtPosition :: "int option \<Rightarrow> thrown + Task list \<Rightarrow> thrown + string" where
  "taskAtPosition parsed fetched =
     (case fetched of
        Inl e \<Rightarrow> Inl e
      | Inr tasks \<Rightarrow>
          (case parsed of
             None \<Rightarrow> Inl (Error ''Task number NaN doesn't exist.'')
           | Some n \<Rightarrow>
               (let index = n - 1
                in if index < 0 \<or> index \<ge> int (length tasks) then
                     Inl (Error (''Task number '' @ showInt (index + 1)
                       @ '' doesn't exist. You have '' @ showNat (length tasks) @ '' task''
                       @ (if length tasks = 1 then '''' else ''s'') @ ''.''))
                   else Inr (task_id (tasks ! nat index)))))"

text \<open>
  \<open>fetched\<close> is what \<open>await this.getAllTasks()\<close> gives; each branch awaits it once, before
  anything else can throw.
\<close>

definition resolveTaskIdentifier :: "string \<Rightarrow> thrown + Task list \<Rightarrow> thrown + string" where
  "resolveTaskIdentifier identifier fetched =
     (if isPlainNumber identifier then taskAtPosition (parseInt identifier) fetched
      else
        (case ordinalMatch identifier of
           Some g1 \<Rightarrow> taskAtPosition (parseInt g1) fetched
         | None \<Rightarrow>
             (case fetched of
                Inl e \<Rightarrow> Inl e
              | Inr tasks \<Rightarrow>
                  (let lowerIdentifier = toLowerCase identifier;
                       matches = filter (\<lambda>task. includesStr (toLowerCase (task_title task))
                                           lowerIdentifier) tasks
                   in if length matches = 0 then
                        Inl (Error (''No task found matching \"'' @ identifier
                          @ ''\". Please try a different description.''))
                      else if length matches > 1 then
                        (let matchList = joinWith '', ''
                               (map (\<lambda>(idx, task). showNat (idx + 1) @ ''. '' @ task_title task)
                                  (enumerate 0 matches))
                         in Inl (Error (''Multiple tasks match \"'' @ identifier @ ''\": ''
                              @ matchList
                              @ ''. Please be more specific or use a task number.'')))
                      else Inr (task_id (hd matches))))))"

subsection \<open>The four tools\<close>

text \<open>
  A step of a tool body either returns a string from the tool, or goes on with a value.
  The result of a tool is \<open>thrown + string\<close>: \<open>Inl\<close> would be a rejection of \<open>execute\<close>.
  Sending the refresh message to the front end catches its own failures and returns
  nothing, so it is left out.
\<close>

datatype 'a step = Return string | Continue 'a

definition truthyString :: "string nullish \<Rightarrow> bool" where
  "truthyString x = (case x of Val s \<Rightarrow> s \<noteq> [] | _ \<Rightarrow> False)"

definition truthyPriority :: "priority_input nullish \<Rightarrow> bool" where
  "truthyPriority x =
     (case x of
        Val (Str s) \<Rightarrow> s \<noteq> []
      | Val (Num n) \<Rightarrow> (case n of Fin v \<Rightarrow> v \<noteq> 0 | NaN \<Rightarrow> False | _ \<Rightarrow> True)
      | _ \<Rightarrow> False)"

text \<open>The \<open>catch\<close> around \<open>parseNaturalDate\<close>.\<close>

definition dateStep :: "builtins \<Rightarrow> env \<Rightarrow> string \<Rightarrow> instant option step" where
  "dateStep js env scheduled_time =
     (case parseNaturalDate js scheduled_time (Some (now env)) of
        Inr parsedDate \<Rightarrow> Continue (Some parsedDate)
      | Inl dateError \<Rightarrow>
          (case dateError of
             Error m \<Rightarrow> Return m
           | Other v \<Rightarrow> Return (''I couldn't understand the date \"'' @ scheduled_time
               @ ''\". Please try a different format.'')))"

definition priorityMessage :: "builtins \<Rightarrow> priority_input \<Rightarrow> string" where
  "priorityMessage js priority =
     ''I couldn't understand the priority \"''
       @ (case priority of Str s \<Rightarrow> s | Num n \<Rightarrow> numberToString js n)
       @ ''\". Please use low, normal, high, urgent, critical, or a number from 1 to 5.''"

text \<open>
  The part of \<open>create_task\<close> that builds the body of the request, or returns a message
  for a date or a priority that is not understood.
\<close>

definition create_task_body ::
  "builtins \<Rightarrow> env \<Rightarrow> string \<Rightarrow> string nullish \<Rightarrow> priority_input nullish \<Rightarrow> string list nullish
     \<Rightarrow> create_body step" where
  "create_task_body js env title scheduled_time priority tags =
     (case (case scheduled_time of
              Val s \<Rightarrow> (if s \<noteq> [] then dateStep js env s else Continue None)
            | _ \<Rightarrow> Continue None) of
        Return msg \<Rightarrow> Return msg
      | Continue body_scheduled_time \<Rightarrow>
          (case (case parsePriority priority of
                   Some priorityValue \<Rightarrow> Continue priorityValue
                 | None \<Rightarrow>
                     (case priority of
                        Val p \<Rightarrow> Return (priorityMessage js p)
                      | _ \<Rightarrow> Continue 1)) of
             Return msg \<Rightarrow> Return msg
           | Continue body_priority_index \<Rightarrow>
               Continue \<lparr>cb_title = title, cb_scheduled_time = body_scheduled_time,
                         cb_priority_index = body_priority_index,
                         cb_tags = (case tags of
                                      Val ts \<Rightarrow> (if length ts > 0 then Some ts else None)
                                    | _ \<Rightarrow> None)\<rparr>))"

definition create_task_try ::
  "builtins \<Rightarrow> env \<Rightarrow> string \<Rightarrow> string nullish \<Rightarrow> priority_input nullish \<Rightarrow> string list nullish
     \<Rightarrow> thrown + string" where
  "create_task_try js env title scheduled_time priority tags =
     (case create_task_body js env title scheduled_time priority tags of
        Return msg \<Rightarrow> Inr msg
      | Continue body \<Rightarrow>
          (case awaitJson (fetchWithErrorHandling js (mutateTask env (PostTask body))) of
             Inl e \<Rightarrow> Inl e
           | Inr task \<Rightarrow> Inr ''Task created''))"

definition create_task ::
  "builtins \<Rightarrow> env \<Rightarrow> string \<Rightarrow> string nullish \<Rightarrow> priority_input nullish \<Rightarrow> string list nullish
     \<Rightarrow> thrown + string" where
  "create_task js env title scheduled_time priority tags =
     (case create_task_try js env title scheduled_time priority tags of
        Inr s \<Rightarrow> Inr s
      | Inl error \<Rightarrow>
          (case error of
             Error m \<Rightarrow> Inr (formatErrorForTTS error ''create that task'')
           | Other v \<Rightarrow> Inr ''Couldn't create task''))"

text \<open>\<open>/^\d{4}-\d{2}-\d{2}/\<close>, tested on the \<open>scheduled\<close> filter.\<close>

definition isoDatePrefix :: "string \<Rightarrow> bool" where
  "isoDatePrefix s = isoDatePart (take 10 s)"

text \<open>
  The part of \<open>get_tasks\<close> that builds the query parameters, in the order in which they
  are appended, or returns a message for a priority that is not understood.
\<close>

definition get_tasks_params ::
  "builtins \<Rightarrow> string nullish \<Rightarrow> priority_input nullish \<Rightarrow> string nullish
     \<Rightarrow> (string \<times> string) list step" where
  "get_tasks_params js query priority scheduled =
     (let params0 = (case query of
                       Val q \<Rightarrow> (if q \<noteq> [] then [(''query'', q)] else [])
                     | _ \<Rightarrow> [])
      in case (case parsePriority priority of
                 Some priorityValue \<Rightarrow>
                   Continue (params0 @ [(''priority'', numberToString js (Fin priorityValue))])
               | None \<Rightarrow>
                   (case priority of
                      Val p \<Rightarrow> Return (priorityMessage js p)
                    | _ \<Rightarrow> Continue params0)) of
           Return msg \<Rightarrow> Return msg
         | Continue params1 \<Rightarrow>
             Continue (case scheduled of
                         Val s \<Rightarrow>
                           (if s \<noteq> [] \<and> s \<noteq> ''all'' \<and> trim s \<noteq> [] \<and> isoDatePrefix s
                            then params1 @ [(''scheduled'', s)] else params1)
                       | _ \<Rightarrow> params1))"

definition get_tasks_try ::
  "builtins \<Rightarrow> env \<Rightarrow> string nullish \<Rightarrow> priority_input nullish \<Rightarrow> string nullish
     \<Rightarrow> thrown + string" where
  "get_tasks_try js env query priority scheduled =
     (case get_tasks_params js query priority scheduled of
        Return msg \<Rightarrow> Inr msg
      | Continue params \<Rightarrow>
          (case awaitJson (fetchWithErrorHandling js (listTasks env params)) of
             Inl e \<Rightarrow> Inl e
           | Inr tasks \<Rightarrow>
               (if length tasks = 0 then
                  (if truthyString query \<or> truthyPriority priority \<or> truthyString scheduled
                   then Inr ''No tasks found'' else Inr ''No tasks'')
                else Inr (''Found '' @ showNat (length tasks) @ '' task''
                       @ (if length tasks = 1 then '''' else ''s'')))))"

definition get_tasks ::
  "builtins \<Rightarrow> env \<Rightarrow> string nullish \<Rightarrow> priority_input nullish \<Rightarrow> string nullish
     \<Rightarrow> thrown + string" where
  "get_tasks js env query priority scheduled =
     (case get_tasks_try js env query priority scheduled of
        Inr s \<Rightarrow> Inr s
      | Inl error \<Rightarrow>
          (case error of
             Error m \<Rightarrow> Inr (formatErrorForTTS error ''retrieve your tasks'')
           | Other v \<Rightarrow> Inr ''Couldn't get tasks''))"

text \<open>The test in the \<open>catch\<close> of \<open>update_task\<close> and \<open>delete_task\<close>.\<close>

definition isClarification :: "string \<Rightarrow> bool" where
  "isClarification m =
     (includesStr m ''Multiple tasks match'' \<or> includesStr m ''No task found''
      \<or> includesStr m ''doesn't exist'')"

text \<open>
  The part of \<open>update_task\<close> that builds the body of the request, after the identifier has
  been resolved: a field for each argument that is given, or a message for a date or a
  priority that is not understood, or for a body with no field.
\<close>

definition update_task_body ::
  "builtins \<Rightarrow> env \<Rightarrow> string nullish \<Rightarrow> string nullish \<Rightarrow> priority_input nullish \<Rightarrow> bool nullish
     \<Rightarrow> update_body step" where
  "update_task_body js env title scheduled_time priority completed =
     (case (case scheduled_time of
              Val s \<Rightarrow> dateStep js env s
            | _ \<Rightarrow> Continue None) of
        Return msg \<Rightarrow> Return msg
      | Continue body_scheduled_time \<Rightarrow>
          (case (case priority of
                   Val p \<Rightarrow>
                     (case parsePriority priority of
                        Some priorityValue \<Rightarrow> Continue (Some priorityValue)
                      | None \<Rightarrow> Return (priorityMessage js p))
                 | _ \<Rightarrow> Continue None) of
             Return msg \<Rightarrow> Return msg
           | Continue body_priority_index \<Rightarrow>
               (let body = \<lparr>ub_title = (case title of Val t \<Rightarrow> Some t | _ \<Rightarrow> None),
                             ub_scheduled_time = body_scheduled_time,
                             ub_priority_index = body_priority_index,
                             ub_completed = (case completed of Val c \<Rightarrow> Some c | _ \<Rightarrow> None)\<rparr>
                in if ub_title body = None \<and> ub_scheduled_time body = None
                      \<and> ub_priority_index body = None \<and> ub_completed body = None then
                     Return ''No changes specified. Please tell me what you'd like to update.''
                   else Continue body)))"

definition update_task_try ::
  "builtins \<Rightarrow> env \<Rightarrow> string \<Rightarrow> string nullish \<Rightarrow> string nullish \<Rightarrow> priority_input nullish
     \<Rightarrow> bool nullish \<Rightarrow> thrown + string" where
  "update_task_try js env identifier title scheduled_time priority completed =
     (case resolveTaskIdentifier identifier (getAllTasks js env) of
        Inl e \<Rightarrow> Inl e
      | Inr taskId \<Rightarrow>
          (case update_task_body js env title scheduled_time priority completed of
             Return msg \<Rightarrow> Inr msg
           | Continue body \<Rightarrow>
               (case awaitJson (fetchWithErrorHandling js
                       (mutateTask env (PatchTask taskId body))) of
                  Inl e \<Rightarrow> Inl e
                | Inr task \<Rightarrow>
                    (if completed \<noteq> Undefined then
                       Inr (if task_completed task then ''Marked complete''
                            else ''Marked incomplete'')
                     else Inr ''Updated''))))"

definition update_task ::
  "builtins \<Rightarrow> env \<Rightarrow> string \<Rightarrow> string nullish \<Rightarrow> string nullish \<Rightarrow> priority_input nullish
     \<Rightarrow> bool nullish \<Rightarrow> thrown + string" where
  "update_task js env identifier title scheduled_time priority completed =
     (case update_task_try js env identifier title scheduled_time priority completed of
        Inr s \<Rightarrow> Inr s
      | Inl error \<Rightarrow>
          (case error of
             Error m \<Rightarrow>
               (if isClarification m then Inr m
                else Inr (formatErrorForTTS error ''update that task''))
           | Other v \<Rightarrow> Inr ''Couldn't update task''))"

definition delete_task_try :: "builtins \<Rightarrow> env \<Rightarrow> string \<Rightarrow> thrown + string" where
  "delete_task_try js env identifier =
     (case resolveTaskIdentifier identifier (getAllTasks js env) of
        Inl e \<Rightarrow> Inl e
      | Inr taskId \<Rightarrow>
          (case awaitJson (fetchWithErrorHandling js (mutateTask env (DeleteTask taskId))) of
             Inl e \<Rightarrow> Inl e
           | Inr task \<Rightarrow> Inr ''Deleted''))"

definition delete_task :: "builtins \<Rightarrow> env \<Rightarrow> string \<Rightarrow> thrown + string" where
  "delete_task js env identifier =
     (case delete_task_try js env identifier of
        Inr s \<Rightarrow> Inr s
      | Inl error \<Rightarrow>
          (case error of
             Error m \<Rightarrow>
               (if isClarification m then Inr m
                else Inr (formatErrorForTTS error ''delete that task''))
           | Other v \<Rightarrow> Inr ''Couldn't delete task''))"

section \<open>Sample values for the examples\<close>

text \<open>
  Host functions for the examples: numbers are rendered as integers, no string is a date,
  and months are not added. The examples do not reach the last two.
\<close>

definition sampleBuiltins :: builtins where
  "sampleBuiltins =
     \<lparr>numberToString =
        (\<lambda>n. case n of Fin x \<Rightarrow> showInt \<lfloor>x\<rfloor> | NaN \<Rightarrow> ''NaN''
              | PosInfinity \<Rightarrow> ''Infinity'' | NegInfinity \<Rightarrow> ''-Infinity''),
      dateParse = (\<lambda>s. None),
      addUTCMonths = (\<lambda>t n. Some t)\<rparr>"

text \<open>The options of \<open>fetchWithErrorHandling\<close>.\<close>

definition apiRetryOptions :: RetryOptions where
  "apiRetryOptions = \<lparr>maxRetries = Some 2, initialDelayMs = Some 500, maxDelayMs = None,
     timeoutMs = Some 8000, backoffMultiplier = None, shouldRetry = None\<rparr>"

definition sampleTask :: "string \<Rightarrow> string \<Rightarrow> bool \<Rightarrow> Task" where
  "sampleTask i t c =
     \<lparr>task_id = i, task_title = t, task_completed = c, task_scheduled_time = None,
      task_priority_index = Some 1, task_tags = None,
      task_created_at = ''2024-01-15T10:00:00.000Z'',
      task_updated_at = ''2024-01-15T10:00:00.000Z''\<rparr>"

definition sampleTasks :: "Task list" where
  "sampleTasks =
     [sampleTask ''a'' ''Buy milk'' False, sampleTask ''b'' ''Call mom'' False,
      sampleTask ''c'' ''Buy eggs'' False]"

text \<open>
  An API that answers every request at the first attempt, on Monday 2024-01-15 at 10:00
  UTC: a listing gives the three sample tasks, a mutation gives the second one, completed.
\<close>

definition sampleEnv :: env where
  "sampleEnv =
     \<lparr>now = 1705312800000,
      listTasks = (\<lambda>params attempt. Response 200 None (Inr sampleTasks)),
      mutateTask = (\<lambda>request attempt. Response 200 None (Inr (sampleTask ''b'' ''Call mom'' True)))\<rparr>"

text \<open>The same, with a server that answers every mutation with status 500.\<close>

definition failingEnv :: env where
  "failingEnv = sampleEnv\<lparr>mutateTask := (\<lambda>request attempt. Response 500 None (Inl (Other '''')))\<rparr>"

text \<open>
  An API that serves the three sample tasks. A listing keeps the tasks whose title holds
  the \<open>query\<close> parameter, when there is one. A creation gives a new task. A change or
  a deletion of a task that exists gives that task, and of any other id gives the status
  404.
\<close>

definition servingEnv :: env where
  "servingEnv =
     \<lparr>now = 1705312800000,
      listTasks =
        (\<lambda>params attempt.
           Response 200 None
             (Inr (case map_of params ''query'' of
                     None \<Rightarrow> sampleTasks
                   | Some q \<Rightarrow>
                       filter (\<lambda>task. includesStr (toLowerCase (task_title task)) (toLowerCase q))
                         sampleTasks))),
      mutateTask =
        (\<lambda>request attempt.
           case request of
             PostTask body \<Rightarrow> Response 201 None (Inr (sampleTask ''d'' (cb_title body) False))
           | PatchTask taskId body \<Rightarrow>
               (case find (\<lambda>task. task_id task = taskId) sampleTasks of
                  Some task \<Rightarrow>
                    Response 200 None
                      (Inr (task\<lparr>task_completed :=
                                   (case ub_completed body of
                                      Some c \<Rightarrow> c
                                    | None \<Rightarrow> task_completed task)\<rparr>))
                | None \<Rightarrow> Response 404 None (Inl (Other '''')))
           | DeleteTask taskId \<Rightarrow>
               (case find (\<lambda>task. task_id task = taskId) sampleTasks of
                  Some task \<Rightarrow> Response 200 None (Inr task)
                | None \<Rightarrow> Response 404 None (Inl (Other ''''))))\<rparr>"

section \<open>Properties of the priority keyword mapper\<close>

lemmas string_eval = trim_def toLowerCase_def lowerChar_def isSpace_def isDigit_def
  digitsValue_def digitVal_def parseInt_def

lemmas priority_eval = parsePriority_def matchKeywords_def PRIORITY_MAPPINGS_def

lemma isDigit_not_isSpace: "isDigit c \<Longrightarrow> \<not> isSpace c"
  by (auto simp: isDigit_def isSpace_def)

lemma isDigit_not_sign: "isDigit c \<Longrightarrow> c \<noteq> CHR ''-'' \<and> c \<noteq> CHR ''+''"
  by (auto simp: isDigit_def)

lemma takeWhile_digit_run:
  assumes "list_all isDigit ds" and "rest = [] \<or> \<not> isDigit (hd rest)"
  shows "takeWhile isDigit (ds @ rest) = ds"
proof -
  have "takeWhile isDigit rest = []"
    using assms(2) by (cases rest) auto
  moreover have "takeWhile isDigit (ds @ rest) = ds @ takeWhile isDigit rest"
    using assms(1) by (intro takeWhile_append2) (simp add: list_all_iff)
  ultimately show ?thesis by simp
qed

lemma parseInt_digit_run:
  assumes "ds \<noteq> []" and "list_all isDigit ds" and "rest = [] \<or> \<not> isDigit (hd rest)"
  shows "parseInt (ds @ rest) = Some (int (digitsValue ds))"
proof -
  obtain d ds' where ds: "ds = d # ds'"
    using assms(1) by (cases ds) auto
  have d: "isDigit d"
    using assms(2) ds by simp
  have sp: "dropWhile isSpace (ds @ rest) = ds @ rest"
    using d ds isDigit_not_isSpace by simp
  have hd: "hd (ds @ rest) = d"
    using ds by simp
  have tw: "takeWhile isDigit (ds @ rest) = ds"
    using assms(2,3) by (rule takeWhile_digit_run)
  show ?thesis
    unfolding parseInt_def sp
    using isDigit_not_sign [OF d] assms(1) tw by (simp add: hd Let_def)
qed

lemma matchKeywords_range:
  assumes "matchKeywords t = Some v"
  shows "v \<in> {1, 2, 3, 4, 5}"
proof -
  obtain m where m: "find (\<lambda>m. list_ex (\<lambda>keyword. includesStr t keyword) (keywordsOf m))
      PRIORITY_MAPPINGS = Some m" and v: "v = real (val m)"
    using assms by (auto simp: matchKeywords_def split: option.splits)
  have "m \<in> set PRIORITY_MAPPINGS"
    using m by (auto simp: find_Some_iff)
  then have "val m \<in> {1, 2, 3, 4, 5}"
    by (auto simp: PRIORITY_MAPPINGS_def)
  then show ?thesis
    using v by auto
qed

lemma matchKeywords_None:
  assumes "\<forall>m \<in> set PRIORITY_MAPPINGS. \<forall>k \<in> set (keywordsOf m). \<not> includesStr t k"
  shows "matchKeywords t = None"
proof -
  have "find (\<lambda>m. list_ex (\<lambda>keyword. includesStr t keyword) (keywordsOf m))
      PRIORITY_MAPPINGS = None"
    using assms by (simp add: find_None_iff list_ex_iff)
  then show ?thesis
    by (simp add: matchKeywords_def)
qed

lemma parsePriority_string_cases:
  "parsePriority (Val (Str s)) = Some x \<Longrightarrow>
     (\<exists>k. parseInt (trim (toLowerCase s)) = Some k \<and> 1 \<le> k \<and> k \<le> 5 \<and> x = of_int k)
     \<or> matchKeywords (trim (toLowerCase s)) = Some x"
  by (auto simp: parsePriority_def Let_def split: option.splits if_splits)

lemma parsePriority_in_range:
  assumes "parsePriority inp = Some x"
  shows "1 \<le> x \<and> x \<le> 5"
proof (cases inp)
  case (Val p)
  show ?thesis
  proof (cases p)
    case (Str s)
    from parsePriority_string_cases [of s x] assms Val Str
    consider k where "1 \<le> k" "k \<le> 5" "x = real_of_int k"
      | "matchKeywords (trim (toLowerCase s)) = Some x"
      by auto
    then show ?thesis
    proof cases
      case 1
      then show ?thesis by simp
    next
      case 2
      from matchKeywords_range [OF 2] show ?thesis by auto
    qed
  next
    case (Num n)
    with assms Val show ?thesis
      by (cases n) (auto simp: parsePriority_def split: if_splits)
  qed
qed (use assms in \<open>auto simp: parsePriority_def\<close>)

lemma parsePriority_string_integer:
  assumes "parsePriority (Val (Str s)) = Some y"
  shows "y \<in> \<int>"
proof -
  from parsePriority_string_cases [OF assms]
  consider k where "y = real_of_int k" | "matchKeywords (trim (toLowerCase s)) = Some y"
    by auto
  then show ?thesis
  proof cases
    case 1
    then show ?thesis by simp
  next
    case 2
    from matchKeywords_range [OF 2] show ?thesis by auto
  qed
qed

lemma five_halves_not_integer: "(5 / 2 :: real) \<notin> \<int>"
proof
  assume "(5 / 2 :: real) \<in> \<int>"
  then obtain k :: int where "5 / 2 = real_of_int k"
    by (auto elim: Ints_cases)
  then have "real_of_int (2 * k) = real_of_int 5"
    by simp
  then have "2 * k = 5"
    by (simp only: of_int_eq_iff)
  then show False
    by presburger
qed

lemma keyword_values:
  "parsePriority (Val (Str ''low'')) = Some 1"
  "parsePriority (Val (Str ''minor'')) = Some 1"
  "parsePriority (Val (Str ''optional'')) = Some 1"
  "parsePriority (Val (Str ''normal'')) = Some 2"
  "parsePriority (Val (Str ''medium'')) = Some 2"
  "parsePriority (Val (Str ''standard'')) = Some 2"
  "parsePriority (Val (Str ''regular'')) = Some 2"
  "parsePriority (Val (Str ''high'')) = Some 3"
  "parsePriority (Val (Str ''important'')) = Some 3"
  "parsePriority (Val (Str ''elevated'')) = Some 3"
  "parsePriority (Val (Str ''urgent'')) = Some 4"
  "parsePriority (Val (Str ''pressing'')) = Some 4"
  "parsePriority (Val (Str ''time-sensitive'')) = Some 4"
  "parsePriority (Val (Str ''time sensitive'')) = Some 4"
  "parsePriority (Val (Str ''critical'')) = Some 5"
  "parsePriority (Val (Str ''severe'')) = Some 5"
  "parsePriority (Val (Str ''blocking'')) = Some 5"
  "parsePriority (Val (Str ''emergency'')) = Some 5"
  by (simp_all add: string_eval priority_eval)

lemma label_values:
  "formatPriority js (Some 1) = ''Low''"
  "formatPriority js (Some 2) = ''Normal''"
  "formatPriority js (Some 3) = ''High''"
  "formatPriority js (Some 4) = ''Urgent''"
  "formatPriority js (Some 5) = ''Critical''"
  by (simp_all add: formatPriority_def PRIORITY_MAPPINGS_def)

text \<open>
  C8, as stated, fails: a number input is only compared with the bounds 1 and 5, so the
  number 2.5 is returned as it is, and 2.5 is not an integer.
\<close>

theorem parsePriority_not_integer_counterexample: "parsePriority (Val (Num (Fin (5 / 2)))) = Some (5 / 2) \<and> (5 / 2 :: real) \<notin> \<int>"
  using five_halves_not_integer by (simp add: parsePriority_def)

text \<open>
  C8 (amended): for every input, \<open>parsePriority\<close> returns \<open>null\<close> or a number between 1 and
  5; for a string input that number is an integer. A number input between 1 and 5 is
  returned as it is, whether it is an integer or not; a number outside (7, \<open>NaN\<close>, an
  infinity) gives \<open>null\<close>; \<open>null\<close> and an absent input give \<open>null\<close>; and a string whose
  \<open>parseInt\<close> is \<open>NaN\<close> or outside 1..5 and that contains no priority keyword gives \<open>null\<close>.
\<close>

theorem parsePriority_contract:
  "(parsePriority inp = Some x \<longrightarrow> 1 \<le> x \<and> x \<le> 5)
   \<and> (parsePriority (Val (Str s)) = Some y \<longrightarrow> y \<in> \<int>)
   \<and> parsePriority (Val (Num (Fin r))) = (if 1 \<le> r \<and> r \<le> 5 then Some r else None)
   \<and> parsePriority (Val (Num NaN)) = None
   \<and> parsePriority (Val (Num PosInfinity)) = None
   \<and> parsePriority (Val (Num NegInfinity)) = None
   \<and> parsePriority (Val (Num (Fin 7))) = None
   \<and> parsePriority Null = None
   \<and> parsePriority Undefined = None
   \<and> ((case parseInt (trim (toLowerCase t)) of None \<Rightarrow> True | Some k \<Rightarrow> k < 1 \<or> 5 < k)
        \<and> (\<forall>m \<in> set PRIORITY_MAPPINGS. \<forall>k \<in> set (keywordsOf m).
              \<not> includesStr (trim (toLowerCase t)) k)
       \<longrightarrow> parsePriority (Val (Str t)) = None)"
proof -
  have range: "parsePriority inp = Some x \<longrightarrow> 1 \<le> x \<and> x \<le> 5"
    using parsePriority_in_range by blast
  have integer: "parsePriority (Val (Str s)) = Some y \<longrightarrow> y \<in> \<int>"
    using parsePriority_string_integer by blast
  have numeric: "parsePriority (Val (Num (Fin r))) = (if 1 \<le> r \<and> r \<le> 5 then Some r else None)"
    by (simp add: parsePriority_def)
  have special: "parsePriority (Val (Num NaN)) = None"
    "parsePriority (Val (Num PosInfinity)) = None"
    "parsePriority (Val (Num NegInfinity)) = None"
    "parsePriority (Val (Num (Fin 7))) = None"
    "parsePriority Null = None" "parsePriority Undefined = None"
    by (simp_all add: parsePriority_def)
  have nomatch: "(case parseInt (trim (toLowerCase t)) of None \<Rightarrow> True | Some k \<Rightarrow> k < 1 \<or> 5 < k)
        \<and> (\<forall>m \<in> set PRIORITY_MAPPINGS. \<forall>k \<in> set (keywordsOf m).
              \<not> includesStr (trim (toLowerCase t)) k)
       \<longrightarrow> parsePriority (Val (Str t)) = None"
  proof
    assume h: "(case parseInt (trim (toLowerCase t)) of None \<Rightarrow> True | Some k \<Rightarrow> k < 1 \<or> 5 < k)
        \<and> (\<forall>m \<in> set PRIORITY_MAPPINGS. \<forall>k \<in> set (keywordsOf m).
              \<not> includesStr (trim (toLowerCase t)) k)"
    then have "matchKeywords (trim (toLowerCase t)) = None"
      using matchKeywords_None by blast
    with h show "parsePriority (Val (Str t)) = None"
      by (auto simp: parsePriority_def Let_def split: option.splits)
  qed
  from range integer numeric special nomatch show ?thesis
    by (intro conjI)
qed

lemma someday_eval:
  "parseInt (trim (toLowerCase ''Someday'')) = None"
  "\<forall>m \<in> set PRIORITY_MAPPINGS. \<forall>k \<in> set (keywordsOf m). \<not> includesStr (trim (toLowerCase ''Someday'')) k"
  by (simp_all add: string_eval PRIORITY_MAPPINGS_def)

theorem parsePriority_contract_witness:
  "parsePriority (Val (Str ''urgent'')) = Some 4 \<and> (1::real) \<le> 4 \<and> (4::real) \<le> 5
   \<and> parsePriority (Val (Str ''3'')) = Some 3 \<and> (3::real) \<in> \<int>
   \<and> parsePriority (Val (Num (Fin (5 / 2)))) = Some (5 / 2)
   \<and> parseInt (trim (toLowerCase ''Someday'')) = None
   \<and> parsePriority (Val (Str ''Someday'')) = None"
proof -
  have u: "parsePriority (Val (Str ''urgent'')) = Some 4"
    by (rule keyword_values)
  have t: "parsePriority (Val (Str ''3'')) = Some 3"
    by (simp add: string_eval priority_eval)
  from parsePriority_contract [of "Val (Str ''urgent'')" 4 "''3''" 3 "5 / 2" "''Someday''"] u t someday_eval
  show ?thesis
    by simp
qed

text \<open>
  C9: for every keyword of each of the five keyword classes,
  \<open>formatPriority(parsePriority(keyword))\<close> is the label of that class; and
  \<open>parsePriority("urgent")\<close> is 4, \<open>parsePriority("3")\<close> is 3.
\<close>

theorem priority_roundtrip:
  "(\<forall>m \<in> set PRIORITY_MAPPINGS. \<forall>k \<in> set (keywordsOf m).
      formatPriority js (parsePriority (Val (Str k))) = label m)
   \<and> parsePriority (Val (Str ''urgent'')) = Some 4
   \<and> parsePriority (Val (Str ''3'')) = Some 3"
proof -
  have "\<forall>m \<in> set PRIORITY_MAPPINGS. \<forall>k \<in> set (keywordsOf m).
      formatPriority js (parsePriority (Val (Str k))) = label m"
    unfolding PRIORITY_MAPPINGS_def by (simp add: keyword_values label_values)
  moreover have "parsePriority (Val (Str ''3'')) = Some 3"
    by (simp add: string_eval priority_eval)
  ultimately show ?thesis
    using keyword_values(11) by simp
qed

theorem priority_roundtrip_witness:
  "\<lparr>keywordsOf = [''urgent'', ''pressing'', ''time-sensitive'', ''time sensitive''], val = 4,
      label = ''Urgent''\<rparr> \<in> set PRIORITY_MAPPINGS
   \<and> formatPriority sampleBuiltins
        (parsePriority (Val (Str ''pressing''))) = ''Urgent''"
proof -
  have m: "\<lparr>keywordsOf = [''urgent'', ''pressing'', ''time-sensitive'', ''time sensitive''], val = 4,
      label = ''Urgent''\<rparr> \<in> set PRIORITY_MAPPINGS"
    by (simp add: PRIORITY_MAPPINGS_def)
  from priority_roundtrip [of "sampleBuiltins"]
  have "\<forall>k \<in> set [''urgent'', ''pressing'', ''time-sensitive'', ''time sensitive''].
     formatPriority sampleBuiltins
        (parsePriority (Val (Str k))) = ''Urgent''"
    using m by fastforce
  with m show ?thesis
    by simp
qed

text \<open>
  C10: when the trimmed, lower-cased string starts with digits, and the value of the whole
  run of leading digits is between 1 and 5, \<open>parsePriority\<close> returns that value, whatever
  follows the digits: the keyword sets are not consulted. So \<open>4 low\<close> gives 4, although
  the keyword \<open>low\<close> in it would give 1, and \<open>3RD\<close> after a space, which is normalized
  to \<open>3rd\<close>, gives 3.
\<close>

theorem parsePriority_numeric_prefix:
  assumes "trim (toLowerCase s) = ds @ rest"
    and "ds \<noteq> []" and "list_all isDigit ds"
    and "rest = [] \<or> \<not> isDigit (hd rest)"
    and "1 \<le> digitsValue ds" and "digitsValue ds \<le> 5"
  shows "parsePriority (Val (Str s)) = Some (real (digitsValue ds))"
proof -
  have "parseInt (trim (toLowerCase s)) = Some (int (digitsValue ds))"
    unfolding assms(1) using assms(2,3,4) by (rule parseInt_digit_run)
  then show ?thesis
    using assms(5,6) by (simp add: parsePriority_def Let_def)
qed

theorem parsePriority_numeric_prefix_witness:
  "trim (toLowerCase ''4 low'') = ''4'' @ '' low'' \<and> digitsValue ''4'' = 4
   \<and> parsePriority (Val (Str ''4 low'')) = Some 4
   \<and> matchKeywords (trim (toLowerCase ''4 low'')) = Some 1
   \<and> trim (toLowerCase '' 3RD'') = ''3'' @ ''rd'' \<and> digitsValue ''3'' = 3
   \<and> parsePriority (Val (Str '' 3RD'')) = Some 3"
proof -
  have a: "trim (toLowerCase ''4 low'') = ''4'' @ '' low''" "digitsValue ''4'' = 4"
    "list_all isDigit ''4''" "\<not> isDigit (hd '' low'')"
    by (simp_all add: string_eval)
  have b: "trim (toLowerCase '' 3RD'') = ''3'' @ ''rd''" "digitsValue ''3'' = 3"
    "list_all isDigit ''3''" "\<not> isDigit (hd ''rd'')"
    by (simp_all add: string_eval)
  have k: "matchKeywords (trim (toLowerCase ''4 low'')) = Some 1"
    by (simp add: string_eval priority_eval)
  from parsePriority_numeric_prefix [of "''4 low''" "''4''" "'' low''"] a
  have "parsePriority (Val (Str ''4 low'')) = Some 4" by simp
  moreover from parsePriority_numeric_prefix [of "'' 3RD''" "''3''" "''rd''"] b
  have "parsePriority (Val (Str '' 3RD'')) = Some 3" by simp
  ultimately show ?thesis
    using a b k by simp
qed

section \<open>Properties of the date parser\<close>

lemmas date_pattern_eval = isISO8601_def isoDatePart_def isoTimePart_def isoFractionPart_def
  matchRelative_def matchNextWeekday_def matchThisWeekday_def isWeekdayName_def weekdayNames_def

lemma weekDay_range: "0 \<le> weekDay t \<and> weekDay t < 7"
  by (simp add: weekDay_def)

lemma day_start_bounds:
  assumes "\<bar>R\<bar> \<le> maxTime"
  shows "- maxTime \<le> R div msPerDay * msPerDay" and "R div msPerDay * msPerDay \<le> R"
proof -
  have split: "R = R div msPerDay * msPerDay + R mod msPerDay" and pos: "0 \<le> R mod msPerDay"
    by (simp_all add: msPerDay_def)
  then show "R div msPerDay * msPerDay \<le> R"
    by linarith
  have "(- maxTime) div msPerDay \<le> R div msPerDay"
    using assms by (intro zdiv_mono1) (simp_all add: msPerDay_def)
  moreover have "(- maxTime) div msPerDay = - 100000000"
    by (simp add: maxTime_def msPerDay_def)
  ultimately have "- 100000000 * msPerDay \<le> R div msPerDay * msPerDay"
    by (simp add: msPerDay_def)
  then show "- maxTime \<le> R div msPerDay * msPerDay"
    by (simp add: maxTime_def msPerDay_def)
qed

lemma noon_later:
  assumes "\<bar>R\<bar> \<le> maxTime" and "0 \<le> d"
  shows "- maxTime \<le> (R div msPerDay + d) * msPerDay + 12 * msPerHour"
    and "1 \<le> d \<Longrightarrow> R < (R div msPerDay + d) * msPerDay + 12 * msPerHour"
proof -
  have eq: "(R div msPerDay + d) * msPerDay = R div msPerDay * msPerDay + d * msPerDay"
    by (simp add: algebra_simps)
  have nonneg: "0 \<le> d * msPerDay"
    using assms(2) by (simp add: msPerDay_def)
  show "- maxTime \<le> (R div msPerDay + d) * msPerDay + 12 * msPerHour"
    unfolding eq using day_start_bounds(1) [OF assms(1)] nonneg by (simp add: msPerHour_def)
  assume "1 \<le> d"
  then have "msPerDay \<le> d * msPerDay"
    by (simp add: msPerDay_def)
  moreover have "R mod msPerDay < msPerDay" "R = R div msPerDay * msPerDay + R mod msPerDay"
    by (simp_all add: msPerDay_def)
  moreover have "0 \<le> 12 * msPerHour"
    by (simp add: msPerHour_def)
  ultimately show "R < (R div msPerDay + d) * msPerDay + 12 * msPerHour"
    unfolding eq by linarith
qed

text \<open>Noon of the day of \<open>R\<close>, \<open>d\<close> days later, as the source computes it.\<close>

lemma noon_then_days:
  assumes "\<bar>R\<bar> \<le> maxTime" and "0 \<le> d"
  shows "addUTCDate d (setUTCHours 12 (Some R)) =
     (if (R div msPerDay + d) * msPerDay + 12 * msPerHour \<le> maxTime
      then Some ((R div msPerDay + d) * msPerDay + 12 * msPerHour) else None)"
proof -
  define noon where "noon = R div msPerDay * msPerDay + 12 * msPerHour"
  define t where "t = (R div msPerDay + d) * msPerDay + 12 * msPerHour"
  have t: "t = noon + d * msPerDay"
    by (simp add: t_def noon_def algebra_simps)
  have le: "noon \<le> t"
    unfolding t using assms(2) by (simp add: msPerDay_def)
  have low: "- maxTime \<le> noon" "- maxTime \<le> t"
    using noon_later(1) [OF assms(1), of 0] noon_later(1) [OF assms] by (simp_all add: noon_def t_def)
  show ?thesis
  proof (cases "t \<le> maxTime")
    case True
    then have "\<bar>noon\<bar> \<le> maxTime" "\<bar>t\<bar> \<le> maxTime"
      using le low by simp_all
    then show ?thesis
      using True by (simp add: setUTCHours_def addUTCDate_def timeClip_def noon_def [symmetric]
          t [symmetric] t_def [symmetric])
  next
    case False
    then have "\<not> \<bar>t\<bar> \<le> maxTime"
      by simp
    then show ?thesis
      using False
      by (simp add: setUTCHours_def addUTCDate_def timeClip_def noon_def [symmetric]
          t [symmetric] t_def [symmetric])
  qed
qed

lemma weekDay_noon_later:
  "weekDay ((R div msPerDay + d) * msPerDay + 12 * msPerHour) = (weekDay R + d) mod 7"
proof -
  have "((R div msPerDay + d) * msPerDay + 12 * msPerHour) div msPerDay = R div msPerDay + d"
    by (simp add: msPerDay_def msPerHour_def)
  then show ?thesis
    by (simp add: weekDay_def add.commute add.left_commute mod_simps)
qed

lemma weekday_cases:
  assumes "W \<in> set weekdayNames"
    and "P ''monday''" and "P ''tuesday''" and "P ''wednesday''" and "P ''thursday''"
    and "P ''friday''" and "P ''saturday''" and "P ''sunday''"
  shows "P W"
  using assms by (auto simp: weekdayNames_def)

lemma weekday_name_branch:
  assumes "W \<in> set weekdayNames"
  shows "parseNaturalDate js W R =
     (case getNextWeekday W R False of
        Inl e \<Rightarrow> Inl e
      | Inr targetDate \<Rightarrow>
          (if dateLess targetDate R then Inl pastDateError else toISOString targetDate))"
  by (rule weekday_cases [OF assms])
    (simp_all add: parseNaturalDate_def targetDateOf_def date_pattern_eval
      trim_def toLowerCase_def lowerChar_def isSpace_def isDigit_def)

lemma weekday_name_index:
  assumes "W \<in> set weekdayNames"
  shows "toLowerCase W = W
    \<and> 0 \<le> indexOf [''sunday'', ''monday'', ''tuesday'', ''wednesday'', ''thursday'', ''friday'',
                      ''saturday''] W
    \<and> indexOf [''sunday'', ''monday'', ''tuesday'', ''wednesday'', ''thursday'', ''friday'',
                      ''saturday''] W < 7"
  by (rule weekday_cases [OF assms]) (simp_all add: toLowerCase_def lowerChar_def)

lemma getNextWeekday_unforced:
  assumes "W \<in> set weekdayNames"
  defines "i \<equiv> indexOf [''sunday'', ''monday'', ''tuesday'', ''wednesday'', ''thursday'',
                          ''friday'', ''saturday''] W"
  shows "getNextWeekday W (Some R) False =
     Inr (addUTCDate (if i - weekDay R \<le> 0 then i - weekDay R + 7 else i - weekDay R)
            (setUTCHours 12 (Some R)))"
  using weekday_name_index [OF assms(1)] unfolding i_def
  by (simp add: getNextWeekday_def getUTCDay_def Let_def)

text \<open>
  C6 (amended): for every weekday name \<open>W\<close> (\<open>monday\<close> .. \<open>sunday\<close>) and every valid
  reference instant \<open>R\<close>, \<open>parseNaturalDate(W, R)\<close> never returns an instant at or before
  \<open>R\<close>. The target is noon UTC of the first day after \<open>R\<close>'s UTC date whose weekday is \<open>W\<close>,
  which is \<open>d\<close> days after \<open>R\<close>'s date with \<open>d\<close> between 1 and 7, and 7 when \<open>R\<close>'s UTC
  weekday is \<open>W\<close>: never \<open>R\<close>'s own date. The target is after \<open>R\<close>. When it is within the
  range of time values, it is returned; when it is beyond, a \<open>RangeError\<close> is thrown.
\<close>

theorem weekday_name_next_occurrence:
  assumes "W \<in> set weekdayNames" and "\<bar>R\<bar> \<le> maxTime"
  shows "\<exists>d. 1 \<le> d \<and> d \<le> 7
     \<and> (weekDay R + d) mod 7 = indexOf [''sunday'', ''monday'', ''tuesday'', ''wednesday'',
                                          ''thursday'', ''friday'', ''saturday''] W
     \<and> (weekDay R = indexOf [''sunday'', ''monday'', ''tuesday'', ''wednesday'', ''thursday'',
                               ''friday'', ''saturday''] W \<longrightarrow> d = 7)
     \<and> R < (R div msPerDay + d) * msPerDay + 12 * msPerHour
     \<and> ((R div msPerDay + d) * msPerDay + 12 * msPerHour \<le> maxTime \<longrightarrow>
          parseNaturalDate js W (Some R) = Inr ((R div msPerDay + d) * msPerDay + 12 * msPerHour))
     \<and> (maxTime < (R div msPerDay + d) * msPerDay + 12 * msPerHour \<longrightarrow>
          parseNaturalDate js W (Some R) = Inl (Error ''Invalid time value''))"
proof -
  define i where "i = indexOf [''sunday'', ''monday'', ''tuesday'', ''wednesday'', ''thursday'',
                          ''friday'', ''saturday''] W"
  define d where "d = (if i - weekDay R \<le> 0 then i - weekDay R + 7 else i - weekDay R)"
  define t where "t = (R div msPerDay + d) * msPerDay + 12 * msPerHour"
  have i: "0 \<le> i" "i < 7"
    using weekday_name_index [OF assms(1)] by (simp_all add: i_def)
  have c: "0 \<le> weekDay R" "weekDay R < 7"
    using weekDay_range [of R] by simp_all
  have d: "1 \<le> d" "d \<le> 7"
    using i c by (auto simp: d_def)
  have day: "(weekDay R + d) mod 7 = i"
    using i c by (auto simp: d_def)
  have same: "weekDay R = i \<longrightarrow> d = 7"
    by (simp add: d_def)
  have future: "R < t"
    unfolding t_def using noon_later(2) [OF assms(2) _ d(1)] d(1) by simp
  have "getNextWeekday W (Some R) False = Inr (addUTCDate d (setUTCHours 12 (Some R)))"
    unfolding d_def i_def by (rule getNextWeekday_unforced [OF assms(1)])
  moreover have "addUTCDate d (setUTCHours 12 (Some R)) = (if t \<le> maxTime then Some t else None)"
    unfolding t_def using d(1) by (intro noon_then_days [OF assms(2)]) simp
  ultimately have target:
    "getNextWeekday W (Some R) False = Inr (if t \<le> maxTime then Some t else None)"
    by simp
  have inside: "t \<le> maxTime \<longrightarrow> parseNaturalDate js W (Some R) = Inr t"
    using weekday_name_branch [OF assms(1), of js "Some R"] target future
    by (simp add: dateLess_def toISOString_def)
  have outside: "maxTime < t \<longrightarrow> parseNaturalDate js W (Some R) = Inl (Error ''Invalid time value'')"
    using weekday_name_branch [OF assms(1), of js "Some R"] target
    by (simp add: dateLess_def toISOString_def)
  from d day same future inside outside show ?thesis
    unfolding t_def i_def by blast
qed

text \<open>
  C6, as stated, fails at the end of the range of time values. The last valid instant is
  a Saturday, at 00:00 UTC; for \<open>saturday\<close> the target, noon seven days later, is not a
  time value, and \<open>toISOString\<close> throws instead of returning it.
\<close>

theorem weekday_at_range_end_counterexample:
  "''saturday'' \<in> set weekdayNames
   \<and> \<bar>8640000000000000 :: int\<bar> \<le> maxTime
   \<and> weekDay 8640000000000000 = indexOf [''sunday'', ''monday'', ''tuesday'', ''wednesday'',
        ''thursday'', ''friday'', ''saturday''] ''saturday''
   \<and> parseNaturalDate sampleBuiltins ''saturday'' (Some 8640000000000000)
       = Inl (Error ''Invalid time value'')"
  by (simp add: parseNaturalDate_def targetDateOf_def date_pattern_eval trim_def toLowerCase_def
      lowerChar_def isSpace_def isDigit_def getNextWeekday_def getUTCDay_def weekDay_def
      setUTCHours_def addUTCDate_def timeClip_def dateLess_def toISOString_def maxTime_def
      msPerDay_def msPerHour_def)

theorem weekday_name_next_occurrence_witness:
  "''monday'' \<in> set weekdayNames \<and> \<bar>1705312800000 :: int\<bar> \<le> maxTime
   \<and> weekDay 1705312800000 = indexOf [''sunday'', ''monday'', ''tuesday'', ''wednesday'',
        ''thursday'', ''friday'', ''saturday''] ''monday''
   \<and> parseNaturalDate sampleBuiltins ''monday'' (Some 1705312800000) = Inr 1705924800000"
proof -
  have m: "''monday'' \<in> set weekdayNames"
    by (simp add: weekdayNames_def)
  have r: "\<bar>1705312800000 :: int\<bar> \<le> maxTime"
    by (simp add: maxTime_def)
  have g: "weekDay 1705312800000 = indexOf [''sunday'', ''monday'', ''tuesday'', ''wednesday'',
        ''thursday'', ''friday'', ''saturday''] ''monday''"
    by (simp add: weekDay_def msPerDay_def)
  have v: "(1705312800000 div msPerDay + 7) * msPerDay + 12 * msPerHour = 1705924800000"
    "(1705924800000 :: int) \<le> maxTime"
    by (simp_all add: msPerDay_def msPerHour_def maxTime_def)
  from weekday_name_next_occurrence [OF m r, of sampleBuiltins]
  obtain d where "weekDay 1705312800000 = indexOf [''sunday'', ''monday'', ''tuesday'',
        ''wednesday'', ''thursday'', ''friday'', ''saturday''] ''monday'' \<longrightarrow> d = 7"
    and "(1705312800000 div msPerDay + d) * msPerDay + 12 * msPerHour \<le> maxTime \<longrightarrow>
          parseNaturalDate sampleBuiltins ''monday'' (Some 1705312800000)
            = Inr ((1705312800000 div msPerDay + d) * msPerDay + 12 * msPerHour)"
    by blast
  with g v have "parseNaturalDate sampleBuiltins ''monday'' (Some 1705312800000) = Inr 1705924800000"
    by simp
  with m r g show ?thesis
    by simp
qed

lemma today_branch:
  "parseNaturalDate js ''today'' R =
     (if dateLess (setUTCHours 12 R) R then Inl pastDateError
      else toISOString (setUTCHours 12 R))"
  by (simp add: parseNaturalDate_def targetDateOf_def date_pattern_eval
        trim_def toLowerCase_def lowerChar_def isSpace_def isDigit_def)

text \<open>
  C7, as stated, fails at the last valid instant: its time of day is 00:00:00 UTC, and
  \<open>today\<close> throws a \<open>RangeError\<close> there instead of returning noon of that day.
\<close>

theorem today_at_range_end_counterexample:
  "\<bar>8640000000000000 :: int\<bar> \<le> maxTime
   \<and> (8640000000000000 :: int) mod msPerDay \<le> 12 * msPerHour
   \<and> parseNaturalDate sampleBuiltins ''today'' (Some 8640000000000000)
       = Inl (Error ''Invalid time value'')"
  by (simp add: today_branch setUTCHours_def timeClip_def dateLess_def toISOString_def
      maxTime_def msPerDay_def msPerHour_def)

text \<open>
  C7 (amended): for every valid reference instant \<open>R\<close> but the last one, when the UTC time
  of day of \<open>R\<close> is at or before 12:00:00, \<open>parseNaturalDate("today", R)\<close> returns \<open>R\<close>'s
  UTC date at 12:00:00 UTC. At the last valid instant, which is at 00:00:00 UTC, noon of
  the day is beyond the range of time values and a \<open>RangeError\<close> is thrown. For every
  valid \<open>R\<close> whose UTC time of day is after 12:00:00, the check of the computed date
  against \<open>R\<close> throws the past-date error.
\<close>

theorem today_is_noon_or_past:
  assumes "\<bar>R\<bar> \<le> maxTime"
  shows "(R mod msPerDay \<le> 12 * msPerHour \<and> R < maxTime \<longrightarrow>
      parseNaturalDate js ''today'' (Some R) = Inr (R div msPerDay * msPerDay + 12 * msPerHour))
   \<and> (R = maxTime \<longrightarrow>
      parseNaturalDate js ''today'' (Some R) = Inl (Error ''Invalid time value''))
   \<and> (12 * msPerHour < R mod msPerDay \<longrightarrow>
      parseNaturalDate js ''today'' (Some R) = Inl pastDateError)"
proof -
  define noon where "noon = R div msPerDay * msPerDay + 12 * msPerHour"
  have split: "R = R div msPerDay * msPerDay + R mod msPerDay"
    by simp
  have low: "- maxTime \<le> noon"
    using noon_later(1) [OF assms, of 0] by (simp add: noon_def)
  have before: "parseNaturalDate js ''today'' (Some R) = Inr noon"
    if "R mod msPerDay \<le> 12 * msPerHour" and "R < maxTime"
  proof -
    have "R div msPerDay \<le> (maxTime - 1) div msPerDay"
      using that(2) by (intro zdiv_mono1) (simp_all add: msPerDay_def)
    moreover have "(maxTime - 1) div msPerDay = 99999999"
      by (simp add: maxTime_def msPerDay_def)
    ultimately have "R div msPerDay * msPerDay \<le> 99999999 * msPerDay"
      by (simp add: msPerDay_def)
    then have "noon \<le> maxTime"
      by (simp add: noon_def maxTime_def msPerDay_def msPerHour_def)
    moreover have "\<not> noon < R"
      unfolding noon_def using split that(1) by linarith
    ultimately show ?thesis
      using low
      by (simp add: today_branch setUTCHours_def timeClip_def dateLess_def toISOString_def
          noon_def [symmetric])
  qed
  have last: "parseNaturalDate js ''today'' (Some R) = Inl (Error ''Invalid time value'')"
    if "R = maxTime"
    unfolding that
    by (simp add: today_branch setUTCHours_def timeClip_def dateLess_def toISOString_def
        maxTime_def msPerDay_def msPerHour_def)
  have after: "parseNaturalDate js ''today'' (Some R) = Inl pastDateError"
    if "12 * msPerHour < R mod msPerDay"
  proof -
    have lt: "noon < R"
      unfolding noon_def using split that by linarith
    then have "\<bar>noon\<bar> \<le> maxTime"
      using assms low by simp
    then show ?thesis
      using lt
      by (simp add: today_branch setUTCHours_def timeClip_def dateLess_def noon_def [symmetric])
  qed
  from before last after show ?thesis
    unfolding noon_def by blast
qed

theorem today_is_noon_or_past_witness:
  "\<bar>1705312800000 :: int\<bar> \<le> maxTime \<and> (1705312800000 :: int) < maxTime
   \<and> (1705312800000 :: int) mod msPerDay \<le> 12 * msPerHour
   \<and> parseNaturalDate sampleBuiltins ''today'' (Some 1705312800000) = Inr 1705320000000
   \<and> \<bar>1705327200000 :: int\<bar> \<le> maxTime
   \<and> 12 * msPerHour < (1705327200000 :: int) mod msPerDay
   \<and> parseNaturalDate sampleBuiltins ''today'' (Some 1705327200000)
      = Inl (Error ''Cannot schedule tasks in the past. Please choose a future date.'')
   \<and> \<bar>maxTime\<bar> \<le> maxTime
   \<and> parseNaturalDate sampleBuiltins ''today'' (Some maxTime) = Inl (Error ''Invalid time value'')"
proof -
  have a: "\<bar>1705312800000 :: int\<bar> \<le> maxTime" "(1705312800000 :: int) < maxTime"
    "(1705312800000 :: int) mod msPerDay \<le> 12 * msPerHour"
    "\<bar>1705327200000 :: int\<bar> \<le> maxTime"
    "12 * msPerHour < (1705327200000 :: int) mod msPerDay"
    "\<bar>maxTime\<bar> \<le> maxTime"
    "(1705312800000 :: int) div msPerDay * msPerDay + 12 * msPerHour = 1705320000000"
    by (simp_all add: msPerDay_def msPerHour_def maxTime_def)
  from today_is_noon_or_past [OF a(1), of sampleBuiltins]
    today_is_noon_or_past [OF a(4), of sampleBuiltins]
    today_is_noon_or_past [OF a(6), of sampleBuiltins] a
  show ?thesis
    by (simp add: pastDateError_def)
qed
section \<open>Properties of the retry loop\<close>

lemma retryLoop_success:
  assumes "int attempt \<le> maxRetriesR opts"
    and "withTimeout js (fn attempt) (timeoutMsR opts) = Inr v"
  shows "retryLoop js fn opts lastError attempt delays
     = \<lparr>outcome = Inr v, slept = delays, calls = attempt + 1\<rparr>"
  using assms by (subst retryLoop.simps) simp

lemma retryLoop_abort:
  assumes "int attempt \<le> maxRetriesR opts"
    and "withTimeout js (fn attempt) (timeoutMsR opts) = Inl e"
    and "maxRetriesR opts \<le> int attempt \<or> \<not> shouldRetryR opts (asError e)"
  shows "retryLoop js fn opts lastError attempt delays
     = \<lparr>outcome = Inl (asError e), slept = delays, calls = attempt + 1\<rparr>"
  using assms by (subst retryLoop.simps) (auto simp: Let_def)

lemma retryLoop_retry:
  assumes "int attempt < maxRetriesR opts"
    and "withTimeout js (fn attempt) (timeoutMsR opts) = Inl e"
    and "shouldRetryR opts (asError e)"
  shows "retryLoop js fn opts lastError attempt delays
     = retryLoop js fn opts (Some (asError e)) (attempt + 1)
         (delays @ [calculateDelay attempt (initialDelayMsR opts) (maxDelayMsR opts)
                      (backoffMultiplierR opts)])"
  using assms by (subst retryLoop.simps) (simp add: Let_def)

lemma retryLoop_invariant:
  assumes "int attempt \<le> maxRetriesR opts"
  shows "attempt < calls (retryLoop js fn opts lastError attempt delays)
     \<and> int (calls (retryLoop js fn opts lastError attempt delays)) \<le> maxRetriesR opts + 1
     \<and> slept (retryLoop js fn opts lastError attempt delays)
         = delays @ map (\<lambda>k. calculateDelay k (initialDelayMsR opts) (maxDelayMsR opts)
                               (backoffMultiplierR opts))
                      [attempt..<calls (retryLoop js fn opts lastError attempt delays) - 1]
     \<and> (\<forall>err. outcome (retryLoop js fn opts lastError attempt delays) = Inl err \<longrightarrow>
           (\<exists>e. withTimeout js (fn (calls (retryLoop js fn opts lastError attempt delays) - 1))
                   (timeoutMsR opts) = Inl e \<and> err = asError e))
     \<and> (\<forall>v. outcome (retryLoop js fn opts lastError attempt delays) = Inr v \<longrightarrow>
           withTimeout js (fn (calls (retryLoop js fn opts lastError attempt delays) - 1))
             (timeoutMsR opts) = Inr v)"
  using assms
proof (induction js fn opts lastError attempt delays rule: retryLoop.induct)
  case (1 js fn opts lastError attempt delays)
  note le = \<open>int attempt \<le> maxRetriesR opts\<close>
  show ?case
  proof (cases "withTimeout js (fn attempt) (timeoutMsR opts)")
    case (Inr v)
    show ?thesis
      unfolding retryLoop_success [where fn = fn and attempt = attempt, OF le Inr] using le Inr by simp
  next
    case (Inl e)
    show ?thesis
    proof (cases "maxRetriesR opts \<le> int attempt \<or> \<not> shouldRetryR opts (asError e)")
      case True
      show ?thesis
        unfolding retryLoop_abort [where fn = fn and attempt = attempt, OF le Inl True] using le Inl by simp
    next
      case False
      then have lt: "int attempt < maxRetriesR opts" and again: "shouldRetryR opts (asError e)"
        by auto
      define ds where "ds = delays @ [calculateDelay attempt (initialDelayMsR opts)
        (maxDelayMsR opts) (backoffMultiplierR opts)]"
      define r where "r = retryLoop js fn opts (Some (asError e)) (attempt + 1) ds"
      have step: "retryLoop js fn opts lastError attempt delays = r"
        unfolding r_def ds_def using lt Inl again by (rule retryLoop_retry)
      have "int (attempt + 1) \<le> maxRetriesR opts"
        using lt by simp
      from "1.IH" [OF le Inl refl _ _ this] False
      have ih: "attempt + 1 < calls r \<and> int (calls r) \<le> maxRetriesR opts + 1
        \<and> slept r = ds @ map (\<lambda>k. calculateDelay k (initialDelayMsR opts) (maxDelayMsR opts)
                               (backoffMultiplierR opts)) [attempt + 1..<calls r - 1]
        \<and> (\<forall>err. outcome r = Inl err \<longrightarrow>
              (\<exists>e. withTimeout js (fn (calls r - 1)) (timeoutMsR opts) = Inl e \<and> err = asError e))
        \<and> (\<forall>v. outcome r = Inr v \<longrightarrow> withTimeout js (fn (calls r - 1)) (timeoutMsR opts) = Inr v)"
        unfolding r_def ds_def by simp
      then have "attempt + 1 < calls r"
        by blast
      then have "attempt < calls r - 1"
        by arith
      then have "[attempt..<calls r - 1] = attempt # [attempt + 1..<calls r - 1]"
        by (simp add: upt_conv_Cons)
      with ih show ?thesis
        unfolding step by (simp add: ds_def)
    qed
  qed
qed

lemma not_retryable_404: "\<not> defaultShouldRetry (Error ''API request failed with status 404'')"
  by (simp add: defaultShouldRetry_def toLowerCase_def lowerChar_def)

text \<open>
  C3: with \<open>maxRetries\<close> = 2, when the first two attempts fail with errors that the policy
  classifies as retryable and the third attempt succeeds, \<open>withRetry\<close> returns the value of
  the third attempt after exactly two delays, the delay after attempt \<open>k\<close> being
  \<open>min(initialDelayMs * backoffMultiplier^k, maxDelayMs)\<close>. When the first attempt fails
  with an error that is not retryable (the default policy does not retry
  \<open>API request failed with status 404\<close>), that error is thrown after one call of the
  operation and no delay. In every run there are at least one and at most three calls of
  the operation, one delay between consecutive calls, and a thrown error is the error of
  the last call. An attempt fails when the operation rejects or does not settle before the
  timeout.
\<close>

theorem withRetry_two_retries:
  assumes "opts = mergeOptions DEFAULT_RETRY_OPTIONS options" and "maxRetriesR opts = 2"
  shows "(withTimeout js (fn 0) (timeoutMsR opts) = Inl e0 \<and> shouldRetryR opts (asError e0)
          \<and> withTimeout js (fn 1) (timeoutMsR opts) = Inl e1 \<and> shouldRetryR opts (asError e1)
          \<and> withTimeout js (fn 2) (timeoutMsR opts) = Inr v
        \<longrightarrow> withRetry js fn options =
              \<lparr>outcome = Inr v,
               slept = [min (initialDelayMsR opts * backoffMultiplierR opts ^ 0) (maxDelayMsR opts),
                        min (initialDelayMsR opts * backoffMultiplierR opts ^ 1) (maxDelayMsR opts)],
               calls = 3\<rparr>)
     \<and> (withTimeout js (fn 0) (timeoutMsR opts) = Inl e \<and> \<not> shouldRetryR opts (asError e)
        \<longrightarrow> withRetry js fn options = \<lparr>outcome = Inl (asError e), slept = [], calls = 1\<rparr>)
     \<and> \<not> defaultShouldRetry (Error ''API request failed with status 404'')
     \<and> 1 \<le> calls (withRetry js fn options) \<and> calls (withRetry js fn options) \<le> 3
     \<and> slept (withRetry js fn options)
         = map (\<lambda>k. min (initialDelayMsR opts * backoffMultiplierR opts ^ k) (maxDelayMsR opts))
             [0..<calls (withRetry js fn options) - 1]
     \<and> (\<forall>err. outcome (withRetry js fn options) = Inl err \<longrightarrow>
           (\<exists>e'. withTimeout js (fn (calls (withRetry js fn options) - 1)) (timeoutMsR opts) = Inl e'
                 \<and> err = asError e'))"
proof -
  have run: "withRetry js fn options = retryLoop js fn opts None 0 []"
    unfolding withRetry_def Let_def assms(1) by (rule refl)
  have first: "int 0 \<le> maxRetriesR opts"
    by (simp add: assms(2))
  have success: "withRetry js fn options =
              \<lparr>outcome = Inr v,
               slept = [min (initialDelayMsR opts * backoffMultiplierR opts ^ 0) (maxDelayMsR opts),
                        min (initialDelayMsR opts * backoffMultiplierR opts ^ 1) (maxDelayMsR opts)],
               calls = 3\<rparr>"
    if a0: "withTimeout js (fn 0) (timeoutMsR opts) = Inl e0" and r0: "shouldRetryR opts (asError e0)"
      and a1: "withTimeout js (fn 1) (timeoutMsR opts) = Inl e1" and r1: "shouldRetryR opts (asError e1)"
      and a2: "withTimeout js (fn 2) (timeoutMsR opts) = Inr v"
  proof -
    have two: "(2::nat) = Suc (Suc 0)" and three: "(3::nat) = Suc (Suc (Suc 0))"
      by simp_all
    have "retryLoop js fn opts None 0 [] = retryLoop js fn opts (Some (asError e0)) (Suc 0)
        [calculateDelay 0 (initialDelayMsR opts) (maxDelayMsR opts) (backoffMultiplierR opts)]"
      using retryLoop_retry [of 0 opts js fn e0 None "[]"] a0 r0 assms(2) by simp
    also have "\<dots> = retryLoop js fn opts (Some (asError e1)) (Suc (Suc 0))
        [calculateDelay 0 (initialDelayMsR opts) (maxDelayMsR opts) (backoffMultiplierR opts),
         calculateDelay (Suc 0) (initialDelayMsR opts) (maxDelayMsR opts) (backoffMultiplierR opts)]"
      using retryLoop_retry [of "Suc 0" opts js fn e1 "Some (asError e0)"
          "[calculateDelay 0 (initialDelayMsR opts) (maxDelayMsR opts) (backoffMultiplierR opts)]"]
        a1 r1 assms(2) by simp
    also have "\<dots> = \<lparr>outcome = Inr v,
        slept = [calculateDelay 0 (initialDelayMsR opts) (maxDelayMsR opts) (backoffMultiplierR opts),
                 calculateDelay (Suc 0) (initialDelayMsR opts) (maxDelayMsR opts) (backoffMultiplierR opts)],
        calls = Suc (Suc (Suc 0))\<rparr>"
      using retryLoop_success [of "Suc (Suc 0)" opts js fn v "Some (asError e1)"] a2 assms(2)
      by (simp add: two)
    finally show ?thesis
      by (simp add: run calculateDelay_def three)
  qed
  have abort: "withRetry js fn options = \<lparr>outcome = Inl (asError e), slept = [], calls = 1\<rparr>"
    if "withTimeout js (fn 0) (timeoutMsR opts) = Inl e" and "\<not> shouldRetryR opts (asError e)"
    using retryLoop_abort [of 0 opts js fn e None "[]"] that assms(2) by (simp add: run)
  from retryLoop_invariant [OF first, of js fn None "[]"]
  have inv: "0 < calls (withRetry js fn options)"
    "int (calls (withRetry js fn options)) \<le> maxRetriesR opts + 1"
    "slept (withRetry js fn options)
       = map (\<lambda>k. calculateDelay k (initialDelayMsR opts) (maxDelayMsR opts) (backoffMultiplierR opts))
           [0..<calls (withRetry js fn options) - 1]"
    "\<forall>err. outcome (withRetry js fn options) = Inl err \<longrightarrow>
           (\<exists>e'. withTimeout js (fn (calls (withRetry js fn options) - 1)) (timeoutMsR opts) = Inl e'
                 \<and> err = asError e')"
    unfolding run by simp_all
  have count: "1 \<le> calls (withRetry js fn options)" "calls (withRetry js fn options) \<le> 3"
    using inv(1,2) assms(2) by simp_all
  have delays: "slept (withRetry js fn options)
         = map (\<lambda>k. min (initialDelayMsR opts * backoffMultiplierR opts ^ k) (maxDelayMsR opts))
             [0..<calls (withRetry js fn options) - 1]"
    using inv(3) by (simp add: calculateDelay_def)
  from success abort not_retryable_404 count delays inv(4) show ?thesis
    by blast
qed

lemma apiRetryOptions_merged:
  "mergeOptions DEFAULT_RETRY_OPTIONS apiRetryOptions =
     \<lparr>maxRetriesR = 2, initialDelayMsR = 500, maxDelayMsR = 5000, timeoutMsR = 8000,
      backoffMultiplierR = 2, shouldRetryR = defaultShouldRetry\<rparr>"
  by (simp add: mergeOptions_def DEFAULT_RETRY_OPTIONS_def apiRetryOptions_def)

lemma retryable_503: "defaultShouldRetry (Error ''API request failed with status 503'')"
  by (simp add: defaultShouldRetry_def toLowerCase_def lowerChar_def)

theorem withRetry_two_retries_witness:
  "maxRetriesR (mergeOptions DEFAULT_RETRY_OPTIONS apiRetryOptions) = 2
   \<and> withRetry sampleBuiltins
        (\<lambda>k. if k < 2 then Rejected (Error ''API request failed with status 503'')
              else Resolved (7::nat)) apiRetryOptions
      = \<lparr>outcome = Inr 7, slept = [500, 1000], calls = 3\<rparr>
   \<and> withRetry sampleBuiltins
        (\<lambda>k. if k < 1 then Rejected (Error ''API request failed with status 404'')
              else Resolved (7::nat)) apiRetryOptions
      = \<lparr>outcome = Inl (Error ''API request failed with status 404''), slept = [], calls = 1\<rparr>"
proof -
  define opts where "opts = mergeOptions DEFAULT_RETRY_OPTIONS apiRetryOptions"
  have m: "maxRetriesR opts = 2" and f: "initialDelayMsR opts = 500" "maxDelayMsR opts = 5000"
    "backoffMultiplierR opts = 2" "shouldRetryR opts = defaultShouldRetry"
    by (simp_all add: opts_def apiRetryOptions_merged)
  from withRetry_two_retries [OF opts_def m, of sampleBuiltins
      "\<lambda>k. if k < 2 then Rejected (Error ''API request failed with status 503'') else Resolved (7::nat)"
      "Error ''API request failed with status 503''"
      "Error ''API request failed with status 503''" 7]
  have a: "withRetry sampleBuiltins
        (\<lambda>k. if k < 2 then Rejected (Error ''API request failed with status 503'')
              else Resolved (7::nat)) apiRetryOptions
      = \<lparr>outcome = Inr 7, slept = [500, 1000], calls = 3\<rparr>"
    using retryable_503 by (simp add: f withTimeout_def asError_def)
  from withRetry_two_retries [OF opts_def m, of sampleBuiltins
      "\<lambda>k. if k < 1 then Rejected (Error ''API request failed with status 404'') else Resolved (7::nat)"
      _ _ _ "Error ''API request failed with status 404''"]
  have b: "withRetry sampleBuiltins
        (\<lambda>k. if k < 1 then Rejected (Error ''API request failed with status 404'')
              else Resolved (7::nat)) apiRetryOptions
      = \<lparr>outcome = Inl (Error ''API request failed with status 404''), slept = [], calls = 1\<rparr>"
    by (simp add: f withTimeout_def asError_def)
  from a b m show ?thesis
    by (simp add: opts_def)
qed

section \<open>Properties of the identifier resolver\<close>

lemma includesStr_sublist: "includesStr s sub \<longleftrightarrow> sublist sub s"
  by (induction s) (simp_all add: sublist_Cons_right)

lemma includesStr_append_right:
  assumes "includesStr t sub"
  shows "includesStr (t @ b) sub"
proof -
  from assms obtain ps ss where "t = ps @ sub @ ss"
    unfolding includesStr_sublist sublist_def by blast
  then have "t @ b = ps @ sub @ (ss @ b)"
    by simp
  then show ?thesis
    unfolding includesStr_sublist sublist_def by blast
qed

lemma includesStr_append_left:
  assumes "includesStr t sub"
  shows "includesStr (a @ t) sub"
proof -
  from assms obtain ps ss where "t = ps @ sub @ ss"
    unfolding includesStr_sublist sublist_def by blast
  then have "a @ t = (a @ ps) @ sub @ ss"
    by simp
  then show ?thesis
    unfolding includesStr_sublist sublist_def by blast
qed

lemma taskAtPosition_clarification:
  assumes "taskAtPosition parsed (Inr tasks) = Inl (Error m)"
  shows "includesStr m ''doesn't exist''"
proof (cases parsed)
  case None
  with assms have "m = ''Task number NaN doesn't exist.''"
    by (simp add: taskAtPosition_def)
  then show ?thesis
    by simp
next
  case (Some n)
  have lit: "includesStr '' doesn't exist. You have '' ''doesn't exist''"
    by simp
  from Some assms have "m = (''Task number '' @ showInt (n - 1 + 1)) @ '' doesn't exist. You have ''
      @ (showNat (length tasks) @ '' task'' @ (if length tasks = 1 then '''' else ''s'') @ ''.'')"
    by (simp add: taskAtPosition_def Let_def split: if_splits)
  then show ?thesis
    using includesStr_append_left [OF includesStr_append_right [OF lit]] by simp
qed

lemma resolve_error_is_clarification:
  assumes "resolveTaskIdentifier identifier (Inr tasks) = Inl (Error m)"
  shows "isClarification m"
proof (cases "isPlainNumber identifier")
  case True
  with assms have "taskAtPosition (parseInt identifier) (Inr tasks) = Inl (Error m)"
    by (simp add: resolveTaskIdentifier_def)
  then show ?thesis
    unfolding isClarification_def using taskAtPosition_clarification by blast
next
  case False
  show ?thesis
  proof (cases "ordinalMatch identifier")
    case (Some g1)
    with False assms have "taskAtPosition (parseInt g1) (Inr tasks) = Inl (Error m)"
      by (simp add: resolveTaskIdentifier_def)
    then show ?thesis
      unfolding isClarification_def using taskAtPosition_clarification by blast
  next
    case None
    have none: "includesStr (''No task found matching \"'' @ b) ''No task found''" for b
      by (rule includesStr_append_right [of "''No task found matching \"''" _ b]) simp
    have many: "includesStr (''Multiple tasks match \"'' @ b) ''Multiple tasks match''" for b
      by (rule includesStr_append_right [of "''Multiple tasks match \"''" _ b]) simp
    define matches where "matches = filter (\<lambda>task. includesStr (toLowerCase (task_title task))
        (toLowerCase identifier)) tasks"
    define matchList where "matchList = joinWith '', ''
        (map (\<lambda>(idx, task). showNat (idx + 1) @ ''. '' @ task_title task) (enumerate 0 matches))"
    from None False assms
    have "m = ''No task found matching \"'' @ (identifier @ ''\". Please try a different description.'')
      \<or> m = ''Multiple tasks match \"'' @ (identifier @ ''\": '' @ matchList
            @ ''. Please be more specific or use a task number.'')"
      unfolding matches_def matchList_def
      by (simp add: resolveTaskIdentifier_def Let_def split: if_splits)
    then show ?thesis
      unfolding isClarification_def using none many by metis
  qed
qed



text \<open>
  The fallback branch, for an identifier that is neither a plain number nor holds an
  ordinal: no match, one match, several matches. The numbers in the last message count
  the matches.
\<close>

lemma resolve_by_title:
  assumes "\<not> isPlainNumber identifier" and "ordinalMatch identifier = None"
  shows "resolveTaskIdentifier identifier (Inr tasks) =
     (let matches = filter (\<lambda>task. includesStr (toLowerCase (task_title task))
                              (toLowerCase identifier)) tasks
      in case matches of
           [] \<Rightarrow> Inl (Error (''No task found matching \"'' @ identifier
                   @ ''\". Please try a different description.''))
         | [task] \<Rightarrow> Inr (task_id task)
         | _ \<Rightarrow> Inl (Error (''Multiple tasks match \"'' @ identifier @ ''\": ''
                   @ joinWith '', ''
                       (map (\<lambda>(idx, task). showNat (idx + 1) @ ''. '' @ task_title task)
                          (enumerate 0 matches))
                   @ ''. Please be more specific or use a task number.'')))"
proof -
  define matches where "matches = filter (\<lambda>task. includesStr (toLowerCase (task_title task))
                              (toLowerCase identifier)) tasks"
  show ?thesis
  proof (cases matches)
    case Nil
    then show ?thesis
      using assms by (simp add: resolveTaskIdentifier_def Let_def matches_def [symmetric])
  next
    case (Cons t ts)
    then show ?thesis
      using assms
      by (cases ts) (simp_all add: resolveTaskIdentifier_def Let_def matches_def [symmetric])
  qed
qed

text \<open>
  C1: on a fetched list of three tasks \<open>[A, B, C]\<close>, the identifiers \<open>2\<close> and \<open>2nd\<close> both
  resolve to the id of \<open>B\<close>, and \<open>9\<close> fails with the message
  \<open>Task number 9 doesn't exist. You have 3 tasks.\<close> The tasks are arbitrary: the plain
  number and the ordinal are tried before the titles are looked at, so a task titled \<open>4\<close>
  does not capture the identifier \<open>4\<close>, nor a task titled \<open>1st\<close> the identifier \<open>1st\<close>.
\<close>

theorem resolve_by_position:
  "resolveTaskIdentifier ''2'' (Inr [A, B, C]) = Inr (task_id B)
   \<and> resolveTaskIdentifier ''2nd'' (Inr [A, B, C]) = Inr (task_id B)
   \<and> resolveTaskIdentifier ''9'' (Inr [A, B, C])
       = Inl (Error ''Task number 9 doesn't exist. You have 3 tasks.'')
   \<and> resolveTaskIdentifier ''4'' (Inr [A\<lparr>task_title := ''4''\<rparr>, B, C, D]) = Inr (task_id D)
   \<and> resolveTaskIdentifier ''1st'' (Inr [A, B\<lparr>task_title := ''1st''\<rparr>, C]) = Inr (task_id A)"
  by (simp add: resolveTaskIdentifier_def isPlainNumber_def taskAtPosition_def parseInt_def
      isDigit_def isSpace_def digitsValue_def digitVal_def showInt_def showNat.simps digitChar_def
      ordinalSuffix_def toLowerCase_def lowerChar_def)



text \<open>
  C2 fails on the numbers of the ambiguity message. With the tasks \<open>Buy milk\<close>, \<open>Call mom\<close>,
  \<open>Buy eggs\<close>, in this order, the identifier \<open>buy\<close> matches the first and the third; the
  message numbers them 1 and 2, their ranks among the matches, and asks for a task number.
  The task number 2 is \<open>Call mom\<close>, which does not match; \<open>Buy eggs\<close> is task number 3.
\<close>

theorem ambiguity_numbers_are_not_task_numbers:
  "resolveTaskIdentifier ''buy'' (Inr sampleTasks)
     = Inl (Error ''Multiple tasks match \"buy\": 1. Buy milk, 2. Buy eggs. Please be more specific or use a task number.'')
   \<and> resolveTaskIdentifier ''2'' (Inr sampleTasks) = Inr ''b''
   \<and> task_title (sampleTasks ! 1) = ''Call mom''
   \<and> task_title (sampleTasks ! 2) = ''Buy eggs''"
  by (simp add: resolveTaskIdentifier_def isPlainNumber_def taskAtPosition_def parseInt_def
      isDigit_def isSpace_def digitsValue_def digitVal_def showInt_def showNat.simps digitChar_def
      ordinalSuffix_def toLowerCase_def lowerChar_def sampleTasks_def sampleTask_def
      enumerate_eq_zip)

section \<open>Properties of the tools\<close>

lemma create_task_returns: "\<exists>s. create_task js env title scheduled_time priority tags = Inr s"
  by (simp add: create_task_def split: sum.splits thrown.splits)

lemma get_tasks_returns: "\<exists>s. get_tasks js env query priority scheduled = Inr s"
  by (simp add: get_tasks_def split: sum.splits thrown.splits)

lemma update_task_returns:
  "\<exists>s. update_task js env identifier title scheduled_time priority completed = Inr s"
  by (simp add: update_task_def split: sum.splits thrown.splits)

lemma delete_task_returns: "\<exists>s. delete_task js env identifier = Inr s"
  by (simp add: delete_task_def split: sum.splits thrown.splits)

lemma update_task_resolver_error:
  assumes "getAllTasks js env = Inr tasks"
    and "resolveTaskIdentifier identifier (Inr tasks) = Inl (Error m)"
  shows "update_task js env identifier title scheduled_time priority completed = Inr m"
proof -
  have "update_task_try js env identifier title scheduled_time priority completed = Inl (Error m)"
    using assms by (simp add: update_task_try_def)
  moreover have "isClarification m"
    using assms(2) by (rule resolve_error_is_clarification)
  ultimately show ?thesis
    by (simp add: update_task_def)
qed

lemma delete_task_resolver_error:
  assumes "getAllTasks js env = Inr tasks"
    and "resolveTaskIdentifier identifier (Inr tasks) = Inl (Error m)"
  shows "delete_task js env identifier = Inr m"
proof -
  have "delete_task_try js env identifier = Inl (Error m)"
    using assms by (simp add: delete_task_try_def)
  moreover have "isClarification m"
    using assms(2) by (rule resolve_error_is_clarification)
  ultimately show ?thesis
    by (simp add: delete_task_def)
qed

lemma create_task_date_error:
  assumes "s \<noteq> []" and "parseNaturalDate js s (Some (now env)) = Inl (Error m)"
  shows "create_task js env title (Val s) priority tags = Inr m"
  using assms
  by (simp add: create_task_def create_task_try_def create_task_body_def dateStep_def)

lemma update_task_date_error:
  assumes "resolveTaskIdentifier identifier (getAllTasks js env) = Inr taskId"
    and "parseNaturalDate js s (Some (now env)) = Inl (Error m)"
  shows "update_task js env identifier title (Val s) priority completed = Inr m"
  using assms
  by (simp add: update_task_def update_task_try_def update_task_body_def dateStep_def)

lemma create_task_transport_error:
  assumes "create_task_try js env title scheduled_time priority tags = Inl (Error m)"
  shows "create_task js env title scheduled_time priority tags
     = Inr (formatErrorForTTS (Error m) ''create that task'')"
  using assms by (simp add: create_task_def)

text \<open>
  C4: each of the four tools returns a string, whatever its arguments are and whatever the
  API and the parsers do; nothing is thrown out of \<open>execute\<close>. A message of the resolver
  (no such task number, no match, several matches) is returned as it is by \<open>update_task\<close>
  and \<open>delete_task\<close>; the message of a date that cannot be parsed is returned as it is;
  and an error of the HTTP exchange that is left after the retries is turned into a
  sentence by \<open>formatErrorForTTS\<close>. In the model every awaited call of the API settles or
  is cut by the timeout of \<open>withRetry\<close>.
\<close>

theorem tools_return_strings:
  "(\<exists>s. create_task js env title scheduled_time priority tags = Inr s)
   \<and> (\<exists>s. get_tasks js env query priority scheduled = Inr s)
   \<and> (\<exists>s. update_task js env identifier title' scheduled_time priority completed = Inr s)
   \<and> (\<exists>s. delete_task js env identifier = Inr s)
   \<and> (getAllTasks js env = Inr tasks \<and> resolveTaskIdentifier identifier (Inr tasks) = Inl (Error m)
        \<longrightarrow> update_task js env identifier title' scheduled_time priority completed = Inr m
            \<and> delete_task js env identifier = Inr m)
   \<and> (d \<noteq> [] \<and> parseNaturalDate js d (Some (now env)) = Inl (Error m')
        \<longrightarrow> create_task js env title (Val d) priority tags = Inr m')
   \<and> (create_task_try js env title scheduled_time priority tags = Inl (Error m'')
        \<longrightarrow> create_task js env title scheduled_time priority tags
              = Inr (formatErrorForTTS (Error m'') ''create that task''))"
proof -
  have c: "\<exists>s. create_task js env title scheduled_time priority tags = Inr s"
    by (rule create_task_returns)
  have g: "\<exists>s. get_tasks js env query priority scheduled = Inr s"
    by (rule get_tasks_returns)
  have u: "\<exists>s. update_task js env identifier title' scheduled_time priority completed = Inr s"
    by (rule update_task_returns)
  have d: "\<exists>s. delete_task js env identifier = Inr s"
    by (rule delete_task_returns)
  have r: "getAllTasks js env = Inr tasks \<and> resolveTaskIdentifier identifier (Inr tasks) = Inl (Error m)
        \<longrightarrow> update_task js env identifier title' scheduled_time priority completed = Inr m
            \<and> delete_task js env identifier = Inr m"
    using update_task_resolver_error delete_task_resolver_error by blast
  have p: "d \<noteq> [] \<and> parseNaturalDate js d (Some (now env)) = Inl (Error m')
        \<longrightarrow> create_task js env title (Val d) priority tags = Inr m'"
    using create_task_date_error by blast
  have t: "create_task_try js env title scheduled_time priority tags = Inl (Error m'')
        \<longrightarrow> create_task js env title scheduled_time priority tags
              = Inr (formatErrorForTTS (Error m'') ''create that task'')"
    using create_task_transport_error by blast
  from c g u d r p t show ?thesis
    by (intro conjI)
qed

lemma create_task_success:
  assumes "create_task_body js env title scheduled_time priority tags = Continue body"
    and "awaitJson (fetchWithErrorHandling js (mutateTask env (PostTask body))) = Inr created"
  shows "create_task js env title scheduled_time priority tags = Inr ''Task created''"
  using assms by (simp add: create_task_def create_task_try_def)

lemma update_task_success:
  assumes "resolveTaskIdentifier identifier (getAllTasks js env) = Inr taskId"
    and "update_task_body js env title scheduled_time priority completed = Continue changes"
    and "awaitJson (fetchWithErrorHandling js (mutateTask env (PatchTask taskId changes)))
           = Inr updated"
  shows "update_task js env identifier title scheduled_time priority completed
     = Inr (if completed = Undefined then ''Updated''
            else if task_completed updated then ''Marked complete'' else ''Marked incomplete'')"
  using assms by (simp add: update_task_def update_task_try_def)

lemma delete_task_success:
  assumes "resolveTaskIdentifier identifier (getAllTasks js env) = Inr taskId"
    and "awaitJson (fetchWithErrorHandling js (mutateTask env (DeleteTask taskId))) = Inr deleted"
  shows "delete_task js env identifier = Inr ''Deleted''"
  using assms by (simp add: delete_task_def delete_task_try_def)

lemma get_tasks_success:
  assumes "get_tasks_params js query priority scheduled = Continue params"
    and "awaitJson (fetchWithErrorHandling js (listTasks env params)) = Inr tasks"
  shows "get_tasks js env query priority scheduled =
     Inr (if length tasks = 0 then
            (if truthyString query \<or> truthyPriority priority \<or> truthyString scheduled
             then ''No tasks found'' else ''No tasks'')
          else ''Found '' @ showNat (length tasks) @ '' task''
                 @ (if length tasks = 1 then '''' else ''s''))"
  using assms by (simp add: get_tasks_def get_tasks_try_def)

text \<open>
  The requests that the tools build. When the date and the priority are accepted,
  \<open>create_task\<close> sends the title as it is given, the date as \<open>parseNaturalDate\<close> returns it,
  and the priority as \<open>parsePriority\<close> returns it, or 1 when none is given.
\<close>

lemma create_task_body_accepted:
  assumes "scheduled_time = Val s" and "s \<noteq> []"
    and "parseNaturalDate js s (Some (now env)) = Inr t"
    and "parsePriority priority = Some p"
  shows "create_task_body js env title scheduled_time priority tags
     = Continue \<lparr>cb_title = title, cb_scheduled_time = Some t, cb_priority_index = p,
                 cb_tags = (case tags of
                              Val ts \<Rightarrow> (if length ts > 0 then Some ts else None)
                            | _ \<Rightarrow> None)\<rparr>"
  using assms by (simp add: create_task_body_def dateStep_def)

lemma create_task_body_defaults:
  assumes "scheduled_time = Undefined \<or> scheduled_time = Null \<or> scheduled_time = Val []"
    and "priority = Undefined \<or> priority = Null"
  shows "create_task_body js env title scheduled_time priority tags
     = Continue \<lparr>cb_title = title, cb_scheduled_time = None, cb_priority_index = 1,
                 cb_tags = (case tags of
                              Val ts \<Rightarrow> (if length ts > 0 then Some ts else None)
                            | _ \<Rightarrow> None)\<rparr>"
  using assms by (auto simp: create_task_body_def parsePriority_def)

lemma get_tasks_params_query_only:
  assumes "q \<noteq> []" and "priority = Undefined \<or> priority = Null"
    and "scheduled = Undefined \<or> scheduled = Null"
  shows "get_tasks_params js (Val q) priority scheduled = Continue [(''query'', q)]"
  using assms by (auto simp: get_tasks_params_def parsePriority_def)

lemma api_options_merged:
  "mergeOptions DEFAULT_RETRY_OPTIONS
     \<lparr>maxRetries = Some 2, initialDelayMs = Some 500, maxDelayMs = None,
      timeoutMs = Some 8000, backoffMultiplier = None, shouldRetry = None\<rparr>
   = \<lparr>maxRetriesR = 2, initialDelayMsR = 500, maxDelayMsR = 5000, timeoutMsR = 8000,
      backoffMultiplierR = 2, shouldRetryR = defaultShouldRetry\<rparr>"
  by (simp add: mergeOptions_def DEFAULT_RETRY_OPTIONS_def)

lemma fetch_first_attempt_ok:
  assumes "net 0 = Response status None json" and "responseOk status"
  shows "fetchWithErrorHandling js net = Inr json"
proof -
  define opts where "opts = \<lparr>maxRetriesR = 2, initialDelayMsR = 500, maxDelayMsR = 5000,
      timeoutMsR = 8000, backoffMultiplierR = 2, shouldRetryR = defaultShouldRetry\<rparr>"
  have "withTimeout js (fetchAttempt (net 0)) (timeoutMsR opts) = Inr json"
    using assms by (simp add: withTimeout_def fetchAttempt_def)
  moreover have "int 0 \<le> maxRetriesR opts"
    by (simp add: opts_def)
  ultimately have "retryLoop js (\<lambda>k. fetchAttempt (net k)) opts None 0 []
      = \<lparr>outcome = Inr json, slept = [], calls = 0 + 1\<rparr>"
    using retryLoop_success [where fn = "\<lambda>k. fetchAttempt (net k)" and attempt = 0 and opts = opts
        and js = js and v = json and lastError = None and delays = "[]"]
    by simp
  then show ?thesis
    by (simp add: fetchWithErrorHandling_def withRetry_def api_options_merged opts_def)
qed

lemma fetch_always_500:
  assumes "\<forall>k. net k = Response 500 None json"
  shows "fetchWithErrorHandling js net = Inl (Error ''API request failed with status 500'')"
proof -
  define opts where "opts = \<lparr>maxRetriesR = 2, initialDelayMsR = 500, maxDelayMsR = 5000,
      timeoutMsR = 8000, backoffMultiplierR = 2, shouldRetryR = defaultShouldRetry\<rparr>"
  define fn where "fn = (\<lambda>k. fetchAttempt (net k))"
  define e where "e = Error ''API request failed with status 500''"
  have att: "withTimeout js (fn k) (timeoutMsR opts) = Inl e" for k
    using assms
    by (simp add: fn_def e_def withTimeout_def fetchAttempt_def responseOk_def showNat.simps
        digitChar_def)
  have again: "shouldRetryR opts (asError e)"
    by (simp add: opts_def e_def asError_def defaultShouldRetry_def toLowerCase_def lowerChar_def)
  have m: "maxRetriesR opts = 2"
    by (simp add: opts_def)
  have "retryLoop js fn opts None 0 [] = retryLoop js fn opts (Some (asError e)) (Suc 0)
      [calculateDelay 0 (initialDelayMsR opts) (maxDelayMsR opts) (backoffMultiplierR opts)]"
    using retryLoop_retry [where fn = fn and attempt = 0 and opts = opts and js = js and e = e
        and lastError = None and delays = "[]"] att again m by simp
  also have "\<dots> = retryLoop js fn opts (Some (asError e)) (Suc (Suc 0))
      [calculateDelay 0 (initialDelayMsR opts) (maxDelayMsR opts) (backoffMultiplierR opts),
       calculateDelay (Suc 0) (initialDelayMsR opts) (maxDelayMsR opts) (backoffMultiplierR opts)]"
    using retryLoop_retry [where fn = fn and attempt = "Suc 0" and opts = opts and js = js and e = e
        and lastError = "Some (asError e)"
        and delays = "[calculateDelay 0 (initialDelayMsR opts) (maxDelayMsR opts)
          (backoffMultiplierR opts)]"] att again m by simp
  also have "outcome \<dots> = Inl (asError e)"
    using retryLoop_abort [where fn = fn and attempt = "Suc (Suc 0)" and opts = opts and js = js
        and e = e and lastError = "Some (asError e)"] att m by simp
  finally have "outcome (retryLoop js fn opts None 0 []) = Inl e"
    by (simp add: e_def asError_def)
  then show ?thesis
    by (simp add: fetchWithErrorHandling_def withRetry_def api_options_merged opts_def fn_def e_def)
qed

lemma sample_api:
  "getAllTasks js sampleEnv = Inr sampleTasks"
  "awaitJson (fetchWithErrorHandling js (listTasks sampleEnv params)) = Inr sampleTasks"
  "awaitJson (fetchWithErrorHandling js (mutateTask sampleEnv request))
     = Inr (sampleTask ''b'' ''Call mom'' True)"
  "awaitJson (fetchWithErrorHandling js (mutateTask failingEnv request))
     = Inl (Error ''API request failed with status 500'')"
  "getAllTasks js failingEnv = Inr sampleTasks"
  "now sampleEnv = 1705312800000"
proof -
  show "awaitJson (fetchWithErrorHandling js (listTasks sampleEnv params)) = Inr sampleTasks"
    by (simp add: fetch_first_attempt_ok [where status = 200 and json = "Inr sampleTasks"]
        sampleEnv_def responseOk_def awaitJson_def)
  show "getAllTasks js sampleEnv = Inr sampleTasks"
    by (simp add: fetch_first_attempt_ok [where status = 200 and json = "Inr sampleTasks"]
        sampleEnv_def responseOk_def awaitJson_def getAllTasks_def)
  show "awaitJson (fetchWithErrorHandling js (mutateTask sampleEnv request))
     = Inr (sampleTask ''b'' ''Call mom'' True)"
    by (simp add: fetch_first_attempt_ok [where status = 200
          and json = "Inr (sampleTask ''b'' ''Call mom'' True)"]
        sampleEnv_def responseOk_def awaitJson_def)
  show "awaitJson (fetchWithErrorHandling js (mutateTask failingEnv request))
     = Inl (Error ''API request failed with status 500'')"
    by (simp add: fetch_always_500 [where json = "Inl (Other '''')"] failingEnv_def sampleEnv_def
        awaitJson_def)
  show "getAllTasks js failingEnv = Inr sampleTasks"
    by (simp add: fetch_first_attempt_ok [where status = 200 and json = "Inr sampleTasks"]
        failingEnv_def sampleEnv_def responseOk_def awaitJson_def getAllTasks_def)
  show "now sampleEnv = 1705312800000"
    by (simp add: sampleEnv_def)
qed

lemmas resolver_eval = resolveTaskIdentifier_def isPlainNumber_def taskAtPosition_def parseInt_def
  isDigit_def isSpace_def digitsValue_def digitVal_def showInt_def showNat.simps digitChar_def
  ordinalSuffix_def toLowerCase_def lowerChar_def sampleTasks_def sampleTask_def enumerate_eq_zip

lemma sample_resolutions:
  "resolveTaskIdentifier ''buy'' (Inr sampleTasks)
     = Inl (Error ''Multiple tasks match \"buy\": 1. Buy milk, 2. Buy eggs. Please be more specific or use a task number.'')"
  "resolveTaskIdentifier ''2'' (Inr sampleTasks) = Inr ''b''"
  "resolveTaskIdentifier ''2nd'' (Inr sampleTasks) = Inr ''b''"
  "resolveTaskIdentifier ''mom'' (Inr sampleTasks) = Inr ''b''"
  "resolveTaskIdentifier ''zzz'' (Inr sampleTasks)
     = Inl (Error ''No task found matching \"zzz\". Please try a different description.'')"
  by (simp_all add: resolver_eval)

lemma sample_dates:
  "parseNaturalDate sampleBuiltins ''tomorrow'' (Some 1705312800000) = Inr 1705406400000"
  "parseNaturalDate sampleBuiltins ''yesterday'' (Some 1705312800000)
     = Inl (Error ''I couldn't understand the date \"yesterday\". Try phrases like \"tomorrow\", \"next Monday\", \"in 3 days\", or a specific date.'')"
  by (simp_all add: parseNaturalDate_def targetDateOf_def date_pattern_eval trim_def toLowerCase_def
      lowerChar_def isSpace_def isDigit_def setUTCHours_def addUTCDate_def msPerDay_def
      msPerHour_def replaceFirst.simps timeClip_def maxTime_def dateLess_def toISOString_def)

theorem tools_return_strings_witness:
  "getAllTasks sampleBuiltins sampleEnv = Inr sampleTasks
   \<and> resolveTaskIdentifier ''buy'' (Inr sampleTasks)
       = Inl (Error ''Multiple tasks match \"buy\": 1. Buy milk, 2. Buy eggs. Please be more specific or use a task number.'')
   \<and> update_task sampleBuiltins sampleEnv ''buy'' Undefined Undefined Undefined (Val True)
       = Inr ''Multiple tasks match \"buy\": 1. Buy milk, 2. Buy eggs. Please be more specific or use a task number.''
   \<and> delete_task sampleBuiltins sampleEnv ''buy''
       = Inr ''Multiple tasks match \"buy\": 1. Buy milk, 2. Buy eggs. Please be more specific or use a task number.''
   \<and> parseNaturalDate sampleBuiltins ''yesterday'' (Some (now sampleEnv))
       = Inl (Error ''I couldn't understand the date \"yesterday\". Try phrases like \"tomorrow\", \"next Monday\", \"in 3 days\", or a specific date.'')
   \<and> create_task sampleBuiltins sampleEnv ''Buy bread'' (Val ''yesterday'') Undefined Undefined
       = Inr ''I couldn't understand the date \"yesterday\". Try phrases like \"tomorrow\", \"next Monday\", \"in 3 days\", or a specific date.''
   \<and> create_task_try sampleBuiltins failingEnv ''Buy bread'' Undefined Undefined Undefined
       = Inl (Error ''API request failed with status 500'')
   \<and> create_task sampleBuiltins failingEnv ''Buy bread'' Undefined Undefined Undefined
       = Inr ''The server encountered an error while trying to create that task. Please try again in a moment.''"
proof -
  have a: "getAllTasks sampleBuiltins sampleEnv = Inr sampleTasks"
    by (rule sample_api)
  have b: "resolveTaskIdentifier ''buy'' (Inr sampleTasks)
       = Inl (Error ''Multiple tasks match \"buy\": 1. Buy milk, 2. Buy eggs. Please be more specific or use a task number.'')"
    by (rule sample_resolutions)
  have c: "parseNaturalDate sampleBuiltins ''yesterday'' (Some (now sampleEnv))
       = Inl (Error ''I couldn't understand the date \"yesterday\". Try phrases like \"tomorrow\", \"next Monday\", \"in 3 days\", or a specific date.'')"
    by (simp add: sample_api sample_dates)
  have d: "create_task_try sampleBuiltins failingEnv ''Buy bread'' Undefined Undefined Undefined
       = Inl (Error ''API request failed with status 500'')"
    by (simp add: create_task_try_def create_task_body_def sample_api parsePriority_def)
  have e: "formatErrorForTTS (Error ''API request failed with status 500'') ''create that task''
       = ''The server encountered an error while trying to create that task. Please try again in a moment.''"
    by (simp add: formatErrorForTTS_def toLowerCase_def lowerChar_def)
  from tools_return_strings [where js = sampleBuiltins and env = sampleEnv and ?identifier = "''buy''"
      and tasks = sampleTasks and title' = Undefined and scheduled_time = Undefined
      and priority = Undefined and completed = "Val True" and d = "''yesterday''"
      and title = "''Buy bread''" and tags = Undefined
      and m = "''Multiple tasks match \"buy\": 1. Buy milk, 2. Buy eggs. Please be more specific or use a task number.''"
      and m' = "''I couldn't understand the date \"yesterday\". Try phrases like \"tomorrow\", \"next Monday\", \"in 3 days\", or a specific date.''"]
    a b c
  have f: "update_task sampleBuiltins sampleEnv ''buy'' Undefined Undefined Undefined (Val True)
       = Inr ''Multiple tasks match \"buy\": 1. Buy milk, 2. Buy eggs. Please be more specific or use a task number.''"
    "delete_task sampleBuiltins sampleEnv ''buy''
       = Inr ''Multiple tasks match \"buy\": 1. Buy milk, 2. Buy eggs. Please be more specific or use a task number.''"
    "create_task sampleBuiltins sampleEnv ''Buy bread'' (Val ''yesterday'') Undefined Undefined
       = Inr ''I couldn't understand the date \"yesterday\". Try phrases like \"tomorrow\", \"next Monday\", \"in 3 days\", or a specific date.''"
    by simp_all
  from tools_return_strings [where js = sampleBuiltins and env = failingEnv
      and title = "''Buy bread''" and scheduled_time = Undefined and priority = Undefined
      and tags = Undefined and m'' = "''API request failed with status 500''"] d e
  have g: "create_task sampleBuiltins failingEnv ''Buy bread'' Undefined Undefined Undefined
       = Inr ''The server encountered an error while trying to create that task. Please try again in a moment.''"
    by simp
  from a b c d f g show ?thesis
    by (intro conjI)
qed

lemma serving_api:
  "getAllTasks js servingEnv = Inr sampleTasks"
  "awaitJson (fetchWithErrorHandling js (listTasks servingEnv [])) = Inr sampleTasks"
  "awaitJson (fetchWithErrorHandling js (listTasks servingEnv [(''query'', ''milk'')]))
     = Inr [sampleTask ''a'' ''Buy milk'' False]"
  "awaitJson (fetchWithErrorHandling js (listTasks servingEnv [(''query'', ''zzz'')])) = Inr []"
  "awaitJson (fetchWithErrorHandling js (mutateTask servingEnv (PostTask body)))
     = Inr (sampleTask ''d'' (cb_title body) False)"
  "awaitJson (fetchWithErrorHandling js (mutateTask servingEnv (PatchTask ''b'' changes)))
     = Inr (sampleTask ''b'' ''Call mom''
              (case ub_completed changes of Some c \<Rightarrow> c | None \<Rightarrow> False))"
  "awaitJson (fetchWithErrorHandling js (mutateTask servingEnv (DeleteTask ''b'')))
     = Inr (sampleTask ''b'' ''Call mom'' False)"
  "now servingEnv = 1705312800000"
proof -
  show "awaitJson (fetchWithErrorHandling js (listTasks servingEnv [])) = Inr sampleTasks"
    by (simp add: fetch_first_attempt_ok [where status = 200 and json = "Inr sampleTasks"]
        servingEnv_def responseOk_def awaitJson_def)
  then show "getAllTasks js servingEnv = Inr sampleTasks"
    by (simp add: getAllTasks_def)
  show "awaitJson (fetchWithErrorHandling js (listTasks servingEnv [(''query'', ''milk'')]))
     = Inr [sampleTask ''a'' ''Buy milk'' False]"
    by (simp add: fetch_first_attempt_ok [where status = 200
          and json = "Inr [sampleTask ''a'' ''Buy milk'' False]"]
        servingEnv_def responseOk_def awaitJson_def sampleTasks_def sampleTask_def toLowerCase_def
        lowerChar_def)
  show "awaitJson (fetchWithErrorHandling js (listTasks servingEnv [(''query'', ''zzz'')])) = Inr []"
    by (simp add: fetch_first_attempt_ok [where status = 200 and json = "Inr []"]
        servingEnv_def responseOk_def awaitJson_def sampleTasks_def sampleTask_def toLowerCase_def
        lowerChar_def)
  show "awaitJson (fetchWithErrorHandling js (mutateTask servingEnv (PostTask body)))
     = Inr (sampleTask ''d'' (cb_title body) False)"
    by (simp add: fetch_first_attempt_ok [where status = 201
          and json = "Inr (sampleTask ''d'' (cb_title body) False)"]
        servingEnv_def responseOk_def awaitJson_def)
  show "awaitJson (fetchWithErrorHandling js (mutateTask servingEnv (PatchTask ''b'' changes)))
     = Inr (sampleTask ''b'' ''Call mom''
              (case ub_completed changes of Some c \<Rightarrow> c | None \<Rightarrow> False))"
    by (simp add: fetch_first_attempt_ok [where status = 200
          and json = "Inr (sampleTask ''b'' ''Call mom''
              (case ub_completed changes of Some c \<Rightarrow> c | None \<Rightarrow> False))"]
        servingEnv_def responseOk_def awaitJson_def sampleTasks_def sampleTask_def
        split: option.splits)
  show "awaitJson (fetchWithErrorHandling js (mutateTask servingEnv (DeleteTask ''b'')))
     = Inr (sampleTask ''b'' ''Call mom'' False)"
    by (simp add: fetch_first_attempt_ok [where status = 200
          and json = "Inr (sampleTask ''b'' ''Call mom'' False)"]
        servingEnv_def responseOk_def awaitJson_def sampleTasks_def sampleTask_def)
  show "now servingEnv = 1705312800000"
    by (simp add: servingEnv_def)
qed

lemma serving_requests:
  "create_task_body sampleBuiltins servingEnv ''Buy bread'' (Val ''tomorrow'') (Val (Str ''high''))
      Undefined
     = Continue \<lparr>cb_title = ''Buy bread'', cb_scheduled_time = Some 1705406400000,
                 cb_priority_index = 3, cb_tags = None\<rparr>"
  "update_task_body sampleBuiltins servingEnv Undefined Undefined Undefined (Val True)
     = Continue \<lparr>ub_title = None, ub_scheduled_time = None, ub_priority_index = None,
                 ub_completed = Some True\<rparr>"
  "update_task_body sampleBuiltins servingEnv Undefined Undefined Undefined (Val False)
     = Continue \<lparr>ub_title = None, ub_scheduled_time = None, ub_priority_index = None,
                 ub_completed = Some False\<rparr>"
  "update_task_body sampleBuiltins servingEnv (Val ''Call dad'') Undefined Undefined Undefined
     = Continue \<lparr>ub_title = Some ''Call dad'', ub_scheduled_time = None, ub_priority_index = None,
                 ub_completed = None\<rparr>"
  "get_tasks_params sampleBuiltins (Val ''milk'') Undefined Undefined = Continue [(''query'', ''milk'')]"
  "get_tasks_params sampleBuiltins (Val ''zzz'') Undefined Undefined = Continue [(''query'', ''zzz'')]"
  "get_tasks_params sampleBuiltins Undefined Undefined Undefined = Continue []"
proof -
  show "create_task_body sampleBuiltins servingEnv ''Buy bread'' (Val ''tomorrow'') (Val (Str ''high''))
      Undefined
     = Continue \<lparr>cb_title = ''Buy bread'', cb_scheduled_time = Some 1705406400000,
                 cb_priority_index = 3, cb_tags = None\<rparr>"
    by (simp add: create_task_body_def dateStep_def serving_api sample_dates keyword_values)
  show "update_task_body sampleBuiltins servingEnv Undefined Undefined Undefined (Val True)
     = Continue \<lparr>ub_title = None, ub_scheduled_time = None, ub_priority_index = None,
                 ub_completed = Some True\<rparr>"
    by (simp add: update_task_body_def)
  show "update_task_body sampleBuiltins servingEnv Undefined Undefined Undefined (Val False)
     = Continue \<lparr>ub_title = None, ub_scheduled_time = None, ub_priority_index = None,
                 ub_completed = Some False\<rparr>"
    by (simp add: update_task_body_def)
  show "update_task_body sampleBuiltins servingEnv (Val ''Call dad'') Undefined Undefined Undefined
     = Continue \<lparr>ub_title = Some ''Call dad'', ub_scheduled_time = None, ub_priority_index = None,
                 ub_completed = None\<rparr>"
    by (simp add: update_task_body_def)
  show "get_tasks_params sampleBuiltins (Val ''milk'') Undefined Undefined
     = Continue [(''query'', ''milk'')]"
    by (simp add: get_tasks_params_def parsePriority_def)
  show "get_tasks_params sampleBuiltins (Val ''zzz'') Undefined Undefined
     = Continue [(''query'', ''zzz'')]"
    by (simp add: get_tasks_params_def parsePriority_def)
  show "get_tasks_params sampleBuiltins Undefined Undefined Undefined = Continue []"
    by (simp add: get_tasks_params_def parsePriority_def)
qed

text \<open>
  C5: a tool call that succeeds returns one of the fixed confirmations. Each tool is taken
  at the one request that it sends: the body or the query parameters are the ones that the
  tool builds from its arguments, the task id is the one that the identifier resolves to,
  and the API answers that request with a task, or with a list of tasks. Then
  \<open>create_task\<close> returns \<open>Task created\<close>; \<open>update_task\<close> returns \<open>Updated\<close> when \<open>completed\<close>
  is absent, and otherwise \<open>Marked complete\<close> or \<open>Marked incomplete\<close>, by the \<open>completed\<close>
  field of the task in the answer; \<open>delete_task\<close> returns \<open>Deleted\<close>; and the string that
  \<open>get_tasks\<close> returns is determined by the number of tasks in the answer and by whether a
  filter was given: \<open>No tasks\<close>, \<open>No tasks found\<close>, or \<open>Found n task(s)\<close>. No title and no
  other field of a task enters any of these strings.
\<close>

theorem successful_results_are_fixed_strings:
  "(create_task_body js env title scheduled_time priority tags = Continue body
     \<and> awaitJson (fetchWithErrorHandling js (mutateTask env (PostTask body))) = Inr created
    \<longrightarrow> create_task js env title scheduled_time priority tags = Inr ''Task created'')
   \<and> (resolveTaskIdentifier identifier (getAllTasks js env) = Inr taskId
     \<and> update_task_body js env new_title new_time new_priority completed = Continue changes
     \<and> awaitJson (fetchWithErrorHandling js (mutateTask env (PatchTask taskId changes)))
          = Inr updated
    \<longrightarrow> update_task js env identifier new_title new_time new_priority completed
          = Inr (if completed = Undefined then ''Updated''
                 else if task_completed updated then ''Marked complete''
                 else ''Marked incomplete''))
   \<and> (resolveTaskIdentifier identifier (getAllTasks js env) = Inr taskId
     \<and> awaitJson (fetchWithErrorHandling js (mutateTask env (DeleteTask taskId))) = Inr deleted
    \<longrightarrow> delete_task js env identifier = Inr ''Deleted'')
   \<and> (get_tasks_params js query filter_priority scheduled = Continue params
     \<and> awaitJson (fetchWithErrorHandling js (listTasks env params)) = Inr tasks
    \<longrightarrow> get_tasks js env query filter_priority scheduled =
          Inr (if length tasks = 0 then
                 (if truthyString query \<or> truthyPriority filter_priority \<or> truthyString scheduled
                  then ''No tasks found'' else ''No tasks'')
               else ''Found '' @ showNat (length tasks) @ '' task''
                      @ (if length tasks = 1 then '''' else ''s'')))"
proof -
  have c: "create_task_body js env title scheduled_time priority tags = Continue body
     \<and> awaitJson (fetchWithErrorHandling js (mutateTask env (PostTask body))) = Inr created
    \<longrightarrow> create_task js env title scheduled_time priority tags = Inr ''Task created''"
    using create_task_success by blast
  have u: "resolveTaskIdentifier identifier (getAllTasks js env) = Inr taskId
     \<and> update_task_body js env new_title new_time new_priority completed = Continue changes
     \<and> awaitJson (fetchWithErrorHandling js (mutateTask env (PatchTask taskId changes)))
          = Inr updated
    \<longrightarrow> update_task js env identifier new_title new_time new_priority completed
          = Inr (if completed = Undefined then ''Updated''
                 else if task_completed updated then ''Marked complete''
                 else ''Marked incomplete'')"
    using update_task_success by blast
  have d: "resolveTaskIdentifier identifier (getAllTasks js env) = Inr taskId
     \<and> awaitJson (fetchWithErrorHandling js (mutateTask env (DeleteTask taskId))) = Inr deleted
    \<longrightarrow> delete_task js env identifier = Inr ''Deleted''"
    using delete_task_success by blast
  have g: "get_tasks_params js query filter_priority scheduled = Continue params
     \<and> awaitJson (fetchWithErrorHandling js (listTasks env params)) = Inr tasks
    \<longrightarrow> get_tasks js env query filter_priority scheduled =
          Inr (if length tasks = 0 then
                 (if truthyString query \<or> truthyPriority filter_priority \<or> truthyString scheduled
                  then ''No tasks found'' else ''No tasks'')
               else ''Found '' @ showNat (length tasks) @ '' task''
                      @ (if length tasks = 1 then '''' else ''s''))"
    using get_tasks_success by blast
  from c u d g show ?thesis
    by (intro conjI)
qed

theorem successful_results_are_fixed_strings_witness:
  "create_task_body sampleBuiltins servingEnv ''Buy bread'' (Val ''tomorrow'') (Val (Str ''high''))
      Undefined
     = Continue \<lparr>cb_title = ''Buy bread'', cb_scheduled_time = Some 1705406400000,
                 cb_priority_index = 3, cb_tags = None\<rparr>
   \<and> awaitJson (fetchWithErrorHandling sampleBuiltins (mutateTask servingEnv
        (PostTask \<lparr>cb_title = ''Buy bread'', cb_scheduled_time = Some 1705406400000,
                   cb_priority_index = 3, cb_tags = None\<rparr>)))
     = Inr (sampleTask ''d'' ''Buy bread'' False)
   \<and> create_task sampleBuiltins servingEnv ''Buy bread'' (Val ''tomorrow'') (Val (Str ''high''))
        Undefined = Inr ''Task created''
   \<and> resolveTaskIdentifier ''2nd'' (getAllTasks sampleBuiltins servingEnv) = Inr ''b''
   \<and> update_task sampleBuiltins servingEnv ''2nd'' (Val ''Call dad'') Undefined Undefined Undefined
        = Inr ''Updated''
   \<and> update_task sampleBuiltins servingEnv ''2nd'' Undefined Undefined Undefined (Val True)
        = Inr ''Marked complete''
   \<and> update_task sampleBuiltins servingEnv ''2nd'' Undefined Undefined Undefined (Val False)
        = Inr ''Marked incomplete''
   \<and> resolveTaskIdentifier ''mom'' (getAllTasks sampleBuiltins servingEnv) = Inr ''b''
   \<and> delete_task sampleBuiltins servingEnv ''mom'' = Inr ''Deleted''
   \<and> get_tasks_params sampleBuiltins (Val ''milk'') Undefined Undefined
     = Continue [(''query'', ''milk'')]
   \<and> awaitJson (fetchWithErrorHandling sampleBuiltins (listTasks servingEnv [(''query'', ''milk'')]))
     = Inr [sampleTask ''a'' ''Buy milk'' False]
   \<and> get_tasks sampleBuiltins servingEnv (Val ''milk'') Undefined Undefined = Inr ''Found 1 task''
   \<and> get_tasks sampleBuiltins servingEnv (Val ''zzz'') Undefined Undefined = Inr ''No tasks found''
   \<and> get_tasks sampleBuiltins servingEnv Undefined Undefined Undefined = Inr ''Found 3 tasks''"
proof -
  define post where "post = \<lparr>cb_title = ''Buy bread'', cb_scheduled_time = Some 1705406400000,
      cb_priority_index = 3, cb_tags = None\<rparr>"
  define rename where "rename = \<lparr>ub_title = Some ''Call dad'', ub_scheduled_time = None,
      ub_priority_index = None, ub_completed = None\<rparr>"
  define complete where "complete = \<lparr>ub_title = None, ub_scheduled_time = None,
      ub_priority_index = (None :: real option), ub_completed = Some True\<rparr>"
  define reopen where "reopen = \<lparr>ub_title = None, ub_scheduled_time = None,
      ub_priority_index = (None :: real option), ub_completed = Some False\<rparr>"
  have body: "create_task_body sampleBuiltins servingEnv ''Buy bread'' (Val ''tomorrow'')
      (Val (Str ''high'')) Undefined = Continue post"
    unfolding post_def by (rule serving_requests)
  have created: "awaitJson (fetchWithErrorHandling sampleBuiltins (mutateTask servingEnv
      (PostTask post))) = Inr (sampleTask ''d'' ''Buy bread'' False)"
    by (simp add: serving_api post_def)
  have r2: "resolveTaskIdentifier ''2nd'' (getAllTasks sampleBuiltins servingEnv) = Inr ''b''"
    and rm: "resolveTaskIdentifier ''mom'' (getAllTasks sampleBuiltins servingEnv) = Inr ''b''"
    by (simp_all add: serving_api sample_resolutions)
  have b1: "update_task_body sampleBuiltins servingEnv (Val ''Call dad'') Undefined Undefined
      Undefined = Continue rename"
    unfolding rename_def by (rule serving_requests)
  have b2: "update_task_body sampleBuiltins servingEnv Undefined Undefined Undefined (Val True)
      = Continue complete"
    unfolding complete_def by (rule serving_requests)
  have b3: "update_task_body sampleBuiltins servingEnv Undefined Undefined Undefined (Val False)
      = Continue reopen"
    unfolding reopen_def by (rule serving_requests)
  have p1: "awaitJson (fetchWithErrorHandling sampleBuiltins (mutateTask servingEnv
      (PatchTask ''b'' rename))) = Inr (sampleTask ''b'' ''Call mom'' False)"
    by (simp add: serving_api rename_def)
  have p2: "awaitJson (fetchWithErrorHandling sampleBuiltins (mutateTask servingEnv
      (PatchTask ''b'' complete))) = Inr (sampleTask ''b'' ''Call mom'' True)"
    by (simp add: serving_api complete_def)
  have p3: "awaitJson (fetchWithErrorHandling sampleBuiltins (mutateTask servingEnv
      (PatchTask ''b'' reopen))) = Inr (sampleTask ''b'' ''Call mom'' False)"
    by (simp add: serving_api reopen_def)
  have del: "awaitJson (fetchWithErrorHandling sampleBuiltins (mutateTask servingEnv
      (DeleteTask ''b''))) = Inr (sampleTask ''b'' ''Call mom'' False)"
    by (rule serving_api)
  have q1: "get_tasks_params sampleBuiltins (Val ''milk'') Undefined Undefined
      = Continue [(''query'', ''milk'')]"
    and q2: "get_tasks_params sampleBuiltins (Val ''zzz'') Undefined Undefined
      = Continue [(''query'', ''zzz'')]"
    and q3: "get_tasks_params sampleBuiltins Undefined Undefined Undefined = Continue []"
    by (rule serving_requests)+
  have l1: "awaitJson (fetchWithErrorHandling sampleBuiltins
      (listTasks servingEnv [(''query'', ''milk'')])) = Inr [sampleTask ''a'' ''Buy milk'' False]"
    and l2: "awaitJson (fetchWithErrorHandling sampleBuiltins
      (listTasks servingEnv [(''query'', ''zzz'')])) = Inr []"
    and l3: "awaitJson (fetchWithErrorHandling sampleBuiltins (listTasks servingEnv []))
      = Inr sampleTasks"
    by (rule serving_api)+
  have shown: "length sampleTasks = 3" "showNat 3 = ''3''" "showNat (Suc 0) = ''1''"
    "task_completed (sampleTask ''b'' ''Call mom'' True)"
    "\<not> task_completed (sampleTask ''b'' ''Call mom'' False)"
    by (simp_all add: sampleTasks_def sampleTask_def showNat.simps digitChar_def)
  note thm1 = successful_results_are_fixed_strings [where js = sampleBuiltins and env = servingEnv
      and title = "''Buy bread''" and scheduled_time = "Val ''tomorrow''"
      and priority = "Val (Str ''high'')" and tags = Undefined and body = post
      and created = "sampleTask ''d'' ''Buy bread'' False"
      and ?identifier = "''2nd''" and taskId = "''b''" and new_title = "Val ''Call dad''"
      and new_time = Undefined and new_priority = Undefined and completed = Undefined
      and changes = rename and updated = "sampleTask ''b'' ''Call mom'' False"
      and deleted = "sampleTask ''b'' ''Call mom'' False"
      and query = "Val ''milk''" and filter_priority = Undefined and scheduled = Undefined
      and params = "[(''query'', ''milk'')]" and tasks = "[sampleTask ''a'' ''Buy milk'' False]"]
  note thm2 = successful_results_are_fixed_strings [where js = sampleBuiltins and env = servingEnv
      and title = "''Buy bread''" and scheduled_time = "Val ''tomorrow''"
      and priority = "Val (Str ''high'')" and tags = Undefined and body = post
      and created = "sampleTask ''d'' ''Buy bread'' False"
      and ?identifier = "''2nd''" and taskId = "''b''" and new_title = Undefined
      and new_time = Undefined and new_priority = Undefined and completed = "Val True"
      and changes = complete and updated = "sampleTask ''b'' ''Call mom'' True"
      and deleted = "sampleTask ''b'' ''Call mom'' False"
      and query = "Val ''zzz''" and filter_priority = Undefined and scheduled = Undefined
      and params = "[(''query'', ''zzz'')]" and tasks = "[]"]
  note thm3 = successful_results_are_fixed_strings [where js = sampleBuiltins and env = servingEnv
      and title = "''Buy bread''" and scheduled_time = "Val ''tomorrow''"
      and priority = "Val (Str ''high'')" and tags = Undefined and body = post
      and created = "sampleTask ''d'' ''Buy bread'' False"
      and ?identifier = "''mom''" and taskId = "''b''" and new_title = Undefined
      and new_time = Undefined and new_priority = Undefined and completed = "Val False"
      and changes = reopen and updated = "sampleTask ''b'' ''Call mom'' False"
      and deleted = "sampleTask ''b'' ''Call mom'' False"
      and query = Undefined and filter_priority = Undefined and scheduled = Undefined
      and params = "[]" and tasks = sampleTasks]
  note thm4 = successful_results_are_fixed_strings [where js = sampleBuiltins and env = servingEnv
      and title = "''Buy bread''" and scheduled_time = "Val ''tomorrow''"
      and priority = "Val (Str ''high'')" and tags = Undefined and body = post
      and created = "sampleTask ''d'' ''Buy bread'' False"
      and ?identifier = "''2nd''" and taskId = "''b''" and new_title = Undefined
      and new_time = Undefined and new_priority = Undefined and completed = "Val False"
      and changes = reopen and updated = "sampleTask ''b'' ''Call mom'' False"
      and deleted = "sampleTask ''b'' ''Call mom'' False"
      and query = Undefined and filter_priority = Undefined and scheduled = Undefined
      and params = "[]" and tasks = sampleTasks]
  have c: "create_task sampleBuiltins servingEnv ''Buy bread'' (Val ''tomorrow'') (Val (Str ''high''))
        Undefined = Inr ''Task created''"
    using thm1 body created by simp
  have u1: "update_task sampleBuiltins servingEnv ''2nd'' (Val ''Call dad'') Undefined Undefined
        Undefined = Inr ''Updated''"
    using thm1 r2 b1 p1 by simp
  have u2: "update_task sampleBuiltins servingEnv ''2nd'' Undefined Undefined Undefined (Val True)
        = Inr ''Marked complete''"
    using thm2 r2 b2 p2 shown(4) by simp
  have u3: "update_task sampleBuiltins servingEnv ''2nd'' Undefined Undefined Undefined (Val False)
        = Inr ''Marked incomplete''"
    using thm4 r2 b3 p3 shown(5) by simp
  have d: "delete_task sampleBuiltins servingEnv ''mom'' = Inr ''Deleted''"
    using thm3 rm del by simp
  have g1: "get_tasks sampleBuiltins servingEnv (Val ''milk'') Undefined Undefined
        = Inr ''Found 1 task''"
    using thm1 q1 l1 shown(3) by simp
  have g2: "get_tasks sampleBuiltins servingEnv (Val ''zzz'') Undefined Undefined
        = Inr ''No tasks found''"
    using thm2 q2 l2 by (simp add: truthyString_def)
  have g3: "get_tasks sampleBuiltins servingEnv Undefined Undefined Undefined = Inr ''Found 3 tasks''"
    using thm3 q3 l3 shown(1,2) by simp
  from body [unfolded post_def] created [unfolded post_def] c r2 u1 u2 u3 rm d q1 l1 g1 g2 g3
  show ?thesis
    by (intro conjI)
qed

end
